theory Spec2Isabelle
  imports Complex_Main "HOL-Library.Multiset"
begin

section \<open>Values of the host language\<close>

text \<open>
  The payload that \<^verbatim>\<open>response.json()\<close> hands to the parser is a tree of Python
  values. A dict is an association list whose keys are distinct; a lookup takes the
  entry of the key. A Python float is modelled by the rational it denotes: rounding,
  NaN and the infinities are outside this model. The conversion of an int that is too
  large for a float is in it, since it raises.
\<close>

datatype json =
    JNull
  | JBool bool
  | JInt int
  | JFloat rat
  | JStr string
  | JArr "json list"
  | JObj "(string \<times> json) list"

datatype py_error =
    ValueError
  | TypeError
  | AttributeError
  | ValidationError
  | RequestException
  | HTTPError
  | KeyError
  | BulkWriteError nat
  | ConnectionFailure
  | RuntimeError
  | OverflowError

text \<open>
  The builtins whose results depend on the floating-point format are parameters of the
  model: \<open>float_of_str\<close> is \<^verbatim>\<open>float(s)\<close> on a string (\<open>None\<close> where it raises
  ValueError), \<open>str_of_float\<close> is \<^verbatim>\<open>str(x)\<close> on a float, \<open>str_of_container\<close>
  is \<^verbatim>\<open>str(v)\<close> on a list or a dict, and \<open>to_numeric\<close> is
  \<^verbatim>\<open>pd.to_numeric(..., errors="coerce")\<close> on a string (\<open>None\<close> for the NaN it gives
  a string that is no number). So is what the installed pydantic does with the values
  on which its versions differ, since the repository pins none: \<open>str_field v\<close> is what
  a field of type \<^verbatim>\<open>str\<close> makes of an int, a float or a bool (pydantic 1 stores the
  text of the value, pydantic 2 refuses it), and \<open>float_field v\<close> is what a field of
  type \<^verbatim>\<open>Optional[float]\<close> makes of a bool, of a string, or of an int that is too
  large for a float (pydantic 1 calls \<^verbatim>\<open>float\<close>, pydantic 2 refuses a bool and reads
  a string by rules of its own); \<open>None\<close> is the refusal.
\<close>

record builtins =
  float_of_str :: "string \<Rightarrow> rat option"
  str_of_float :: "rat \<Rightarrow> string"
  str_of_container :: "json \<Rightarrow> string"
  to_numeric :: "string \<Rightarrow> rat option"
  str_field :: "json \<Rightarrow> string option"
  float_field :: "json \<Rightarrow> rat option"

definition digit_char :: "nat \<Rightarrow> char" where
  "digit_char n = ''0123456789'' ! n"

function str_of_nat :: "nat \<Rightarrow> string" where
  "str_of_nat n =
     (if n < 10 then [digit_char n] else str_of_nat (n div 10) @ [digit_char (n mod 10)])"
  by pat_completeness auto
termination
  by (relation "measure id") auto

declare str_of_nat.simps [simp del]

definition str_of_int :: "int \<Rightarrow> string" where
  "str_of_int i = (if i < 0 then CHR ''-'' # str_of_nat (nat (- i)) else str_of_nat (nat i))"

text \<open>\<^verbatim>\<open>str(v)\<close>, as the f-string of the identifier applies it.\<close>

fun py_str :: "builtins \<Rightarrow> json \<Rightarrow> string" where
  "py_str env JNull = ''None''"
| "py_str env (JBool b) = (if b then ''True'' else ''False'')"
| "py_str env (JInt i) = str_of_int i"
| "py_str env (JFloat r) = str_of_float env r"
| "py_str env (JStr s) = s"
| "py_str env (JArr xs) = str_of_container env (JArr xs)"
| "py_str env (JObj kv) = str_of_container env (JObj kv)"

text \<open>
  \<^verbatim>\<open>float(v)\<close>: ValueError on a string that is no number, TypeError on \<^verbatim>\<open>None\<close>, a
  list or a dict, and OverflowError on an int that does not round to a double, which
  are the ints from \<open>2 ^ 1024 - 2 ^ 970\<close> on, in absolute value.
\<close>

definition too_large_for_float :: "int \<Rightarrow> bool" where
  "too_large_for_float i = (2 ^ 1024 - 2 ^ 970 \<le> \<bar>i\<bar>)"

fun py_float :: "builtins \<Rightarrow> json \<Rightarrow> py_error + rat" where
  "py_float env JNull = Inl TypeError"
| "py_float env (JBool b) = Inr (if b then 1 else 0)"
| "py_float env (JInt i) = (if too_large_for_float i then Inl OverflowError else Inr (of_int i))"
| "py_float env (JFloat r) = Inr r"
| "py_float env (JStr s) =
     (case float_of_str env s of None \<Rightarrow> Inl ValueError | Some r \<Rightarrow> Inr r)"
| "py_float env (JArr xs) = Inl TypeError"
| "py_float env (JObj kv) = Inl TypeError"

text \<open>Truth value of a Python object, as \<^verbatim>\<open>if not v\<close> tests it.\<close>

fun py_truthy :: "json \<Rightarrow> bool" where
  "py_truthy JNull = False"
| "py_truthy (JBool b) = b"
| "py_truthy (JInt i) = (i \<noteq> 0)"
| "py_truthy (JFloat r) = (r \<noteq> 0)"
| "py_truthy (JStr s) = (s \<noteq> [])"
| "py_truthy (JArr xs) = (xs \<noteq> [])"
| "py_truthy (JObj kv) = (kv \<noteq> [])"

text \<open>\<^verbatim>\<open>d.get(k, default)\<close>: only a dict has the method.\<close>

fun py_get :: "json \<Rightarrow> string \<Rightarrow> json \<Rightarrow> py_error + json" where
  "py_get (JObj kv) k dflt = Inr (case map_of kv k of None \<Rightarrow> dflt | Some v \<Rightarrow> v)"
| "py_get _ k dflt = Inl AttributeError"

text \<open>The elements a \<^verbatim>\<open>for\<close> loop visits: the items of a list, the keys of a dict,
  the characters of a string; anything else is not iterable.\<close>

fun py_iter :: "json \<Rightarrow> py_error + json list" where
  "py_iter (JArr xs) = Inr xs"
| "py_iter (JObj kv) = Inr (map (\<lambda>p. JStr (fst p)) kv)"
| "py_iter (JStr s) = Inr (map (\<lambda>c. JStr [c]) s)"
| "py_iter _ = Inl TypeError"

section \<open>models.py\<close>

datatype OptionType = CALL | PUT

fun option_type_value :: "OptionType \<Rightarrow> string" where
  "option_type_value CALL = ''CE''"
| "option_type_value PUT = ''PE''"

record OptionChainEntry =
  symbol :: string
  opt_type :: OptionType
  strike_price :: rat
  expiry_date :: string
  identifier' :: string
  fetched_at :: nat
  open_interest :: "rat option"
  change_in_oi :: "rat option"
  pchange_in_oi :: "rat option"
  last_price :: "rat option"
  change :: "rat option"
  pchange :: "rat option"
  total_traded_volume :: "rat option"
  implied_volatility :: "rat option"
  bid_qty :: "rat option"
  bid_price :: "rat option"
  ask_price :: "rat option"
  ask_qty :: "rat option"
  underlying_value :: "rat option"

text \<open>
  The three pre-validators \<^verbatim>\<open>validate_prices\<close>, \<^verbatim>\<open>validate_quantities\<close> and
  \<^verbatim>\<open>validate_percentages\<close> have the same body. They return \<^verbatim>\<open>None\<close> for the
  ValueError and the TypeError of \<^verbatim>\<open>float\<close>; any other exception leaves the validator.
\<close>

definition validate_prices :: "builtins \<Rightarrow> json \<Rightarrow> py_error + rat option" where
  "validate_prices env v =
     (if v = JNull \<or> v = JStr '''' \<or> v = JStr ''-'' then Inr None
      else case py_float env v of
             Inr x \<Rightarrow> Inr (Some x)
           | Inl e \<Rightarrow> (if e = ValueError \<or> e = TypeError then Inr None else Inl e))"

definition validate_quantities :: "builtins \<Rightarrow> json \<Rightarrow> py_error + rat option" where
  "validate_quantities env v =
     (if v = JNull \<or> v = JStr '''' \<or> v = JStr ''-'' then Inr None
      else case py_float env v of
             Inr x \<Rightarrow> Inr (Some x)
           | Inl e \<Rightarrow> (if e = ValueError \<or> e = TypeError then Inr None else Inl e))"

definition validate_percentages :: "builtins \<Rightarrow> json \<Rightarrow> py_error + rat option" where
  "validate_percentages env v =
     (if v = JNull \<or> v = JStr '''' \<or> v = JStr ''-'' then Inr None
      else case py_float env v of
             Inr x \<Rightarrow> Inr (Some x)
           | Inl e \<Rightarrow> (if e = ValueError \<or> e = TypeError then Inr None else Inl e))"

text \<open>
  The validation pydantic applies to a field without a validator of its own. A
  required \<^verbatim>\<open>str\<close> accepts a string as it is and refuses \<^verbatim>\<open>None\<close>, a list and a
  dict; an \<^verbatim>\<open>Optional[float]\<close> accepts \<^verbatim>\<open>None\<close>, a float, and an int that
  \<^verbatim>\<open>float\<close> converts, and refuses a list and a dict. The other values go as the
  installed version has it. \<open>None\<close> is the failure of the validation: the
  ValidationError, or another exception that leaves the constructor of the model.
\<close>

fun pydantic_str :: "builtins \<Rightarrow> json \<Rightarrow> string option" where
  "pydantic_str env (JStr s) = Some s"
| "pydantic_str env (JInt i) = str_field env (JInt i)"
| "pydantic_str env (JFloat r) = str_field env (JFloat r)"
| "pydantic_str env (JBool b) = str_field env (JBool b)"
| "pydantic_str env _ = None"

fun pydantic_optional_float :: "builtins \<Rightarrow> json \<Rightarrow> rat option option" where
  "pydantic_optional_float env JNull = Some None"
| "pydantic_optional_float env (JFloat r) = Some (Some r)"
| "pydantic_optional_float env (JInt i) =
     (if too_large_for_float i then map_option Some (float_field env (JInt i))
      else Some (Some (of_int i)))"
| "pydantic_optional_float env (JBool b) = map_option Some (float_field env (JBool b))"
| "pydantic_optional_float env (JStr s) = map_option Some (float_field env (JStr s))"
| "pydantic_optional_float env _ = None"

text \<open>\<^verbatim>\<open>NSE_FIELD_MAPPING\<close>: the same twelve pairs under \<^verbatim>\<open>"CE"\<close> and \<^verbatim>\<open>"PE"\<close>.\<close>

definition NSE_FIELD_MAPPING :: "string \<Rightarrow> (string \<times> string) list" where
  "NSE_FIELD_MAPPING ty =
     [(''openInterest'', ''open_interest''),
      (''changeinOpenInterest'', ''change_in_oi''),
      (''pchangeinOpenInterest'', ''pchange_in_oi''),
      (''lastPrice'', ''last_price''),
      (''change'', ''change''),
      (''pChange'', ''pchange''),
      (''totalTradedVolume'', ''total_traded_volume''),
      (''impliedVolatility'', ''implied_volatility''),
      (''bidQty'', ''bid_qty''),
      (''bidprice'', ''bid_price''),
      (''askPrice'', ''ask_price''),
      (''askQty'', ''ask_qty'')]"

section \<open>nse\_service.py: the parser\<close>

text \<open>
  The loop of \<^verbatim>\<open>_create_option_entry\<close> that fills \<^verbatim>\<open>mapped_data\<close>: a model field is
  set when the raw field is there and is none of \<^verbatim>\<open>None\<close>, \<^verbatim>\<open>""\<close>, \<^verbatim>\<open>"-"\<close>.
\<close>

fun map_fields :: "(string \<times> json) list \<Rightarrow> (string \<times> string) list \<Rightarrow> (string \<times> json) list" where
  "map_fields option_data [] = []"
| "map_fields option_data ((nse_field, model_field) # rest) =
     (case map_of option_data nse_field of
        None \<Rightarrow> map_fields option_data rest
      | Some v \<Rightarrow>
          (if v \<noteq> JNull \<and> v \<noteq> JStr '''' \<and> v \<noteq> JStr ''-''
           then (model_field, v) # map_fields option_data rest
           else map_fields option_data rest))"

text \<open>A keyword argument that is passed goes through the field's validator; a field
  that is not passed keeps its default \<^verbatim>\<open>None\<close>.\<close>

definition field_value ::
  "(builtins \<Rightarrow> json \<Rightarrow> py_error + rat option) \<Rightarrow> builtins \<Rightarrow> (string \<times> json) list \<Rightarrow> string
     \<Rightarrow> py_error + rat option" where
  "field_value validator env mapped_data name =
     (case map_of mapped_data name of None \<Rightarrow> Inr None | Some v \<Rightarrow> validator env v)"

text \<open>The twelve market fields of the model after their validators, in the order of
  the model; \<open>Inl\<close> is an exception that left the validator.\<close>

definition validated_fields :: "builtins \<Rightarrow> (string \<times> json) list \<Rightarrow> (py_error + rat option) list" where
  "validated_fields env mapped_data =
     [field_value validate_quantities env mapped_data ''open_interest'',
      field_value validate_quantities env mapped_data ''change_in_oi'',
      field_value validate_percentages env mapped_data ''pchange_in_oi'',
      field_value validate_prices env mapped_data ''last_price'',
      field_value validate_percentages env mapped_data ''change'',
      field_value validate_percentages env mapped_data ''pchange'',
      field_value validate_quantities env mapped_data ''total_traded_volume'',
      field_value validate_percentages env mapped_data ''implied_volatility'',
      field_value validate_quantities env mapped_data ''bid_qty'',
      field_value validate_prices env mapped_data ''bid_price'',
      field_value validate_prices env mapped_data ''ask_price'',
      field_value validate_quantities env mapped_data ''ask_qty'']"

text \<open>
  \<^verbatim>\<open>_create_option_entry\<close>. Every exception of its body ends in \<^verbatim>\<open>return None\<close>: that
  of \<^verbatim>\<open>option_data.get\<close> on a value that is no dict, that of \<^verbatim>\<open>float(strike_price)\<close>,
  the ValidationError of the model, and an exception that left a validator.
\<close>

definition create_option_entry ::
  "builtins \<Rightarrow> json \<Rightarrow> string \<Rightarrow> OptionType \<Rightarrow> json \<Rightarrow> json \<Rightarrow> json \<Rightarrow> nat
     \<Rightarrow> OptionChainEntry option" where
  "create_option_entry env option_data symb option_type strike expiry underlying now =
     (case option_data of
        JObj kv \<Rightarrow>
          (let ident = symb @ ''_'' @ option_type_value option_type @ ''_'' @ py_str env strike
                          @ ''_'' @ py_str env expiry;
               mapped_data = map_fields kv (NSE_FIELD_MAPPING (option_type_value option_type))
           in case py_float env strike of
                Inl e \<Rightarrow> None
              | Inr sp \<Rightarrow>
                  (case pydantic_str env expiry of
                     None \<Rightarrow> None
                   | Some ed \<Rightarrow>
                       (case pydantic_optional_float env underlying of
                          None \<Rightarrow> None
                        | Some uv \<Rightarrow>
                            (let market = validated_fields env mapped_data
                             in if list_ex isl market then None
                                else Some \<lparr> symbol = symb, opt_type = option_type,
                                   strike_price = sp, expiry_date = ed, identifier' = ident,
                                   fetched_at = now,
                                   open_interest = projr (market ! 0),
                                   change_in_oi = projr (market ! 1),
                                   pchange_in_oi = projr (market ! 2),
                                   last_price = projr (market ! 3),
                                   change = projr (market ! 4),
                                   pchange = projr (market ! 5),
                                   total_traded_volume = projr (market ! 6),
                                   implied_volatility = projr (market ! 7),
                                   bid_qty = projr (market ! 8),
                                   bid_price = projr (market ! 9),
                                   ask_price = projr (market ! 10),
                                   ask_qty = projr (market ! 11),
                                   underlying_value = uv \<rparr>))))
      | _ \<Rightarrow> None)"

text \<open>\<^verbatim>\<open>record.get("strikePrice")\<close> and \<^verbatim>\<open>record.get("expiryDate", "")\<close> on a row
  that is a dict.\<close>

definition row_strike :: "(string \<times> json) list \<Rightarrow> json" where
  "row_strike kv = (case map_of kv ''strikePrice'' of None \<Rightarrow> JNull | Some v \<Rightarrow> v)"

definition row_expiry :: "(string \<times> json) list \<Rightarrow> json" where
  "row_expiry kv = (case map_of kv ''expiryDate'' of None \<Rightarrow> JStr '''' | Some v \<Rightarrow> v)"

text \<open>One pass of the loop of \<^verbatim>\<open>parse_option_chain\<close> over a record: the entries it
  appends to the calls and to the puts, or the exception that leaves the loop.\<close>

definition side_entry ::
  "builtins \<Rightarrow> (string \<times> json) list \<Rightarrow> string \<Rightarrow> OptionType \<Rightarrow> json \<Rightarrow> json \<Rightarrow> json \<Rightarrow> nat
     \<Rightarrow> OptionChainEntry list" where
  "side_entry env kv symb option_type strike expiry underlying now =
     (case map_of kv (option_type_value option_type) of
        None \<Rightarrow> []
      | Some side_data \<Rightarrow>
          (case create_option_entry env side_data symb option_type strike expiry underlying now of
             None \<Rightarrow> []
           | Some entry \<Rightarrow> [entry]))"

definition parse_record ::
  "builtins \<Rightarrow> string \<Rightarrow> json \<Rightarrow> nat \<Rightarrow> json
     \<Rightarrow> py_error + (OptionChainEntry list \<times> OptionChainEntry list)" where
  "parse_record env symb underlying now rec =
     (case rec of
        JObj kv \<Rightarrow>
          (let strike = row_strike kv;
               expiry = row_expiry kv
           in if \<not> py_truthy strike then Inr ([], [])
              else Inr (side_entry env kv symb CALL strike expiry underlying now,
                        side_entry env kv symb PUT strike expiry underlying now))
      | _ \<Rightarrow> Inl AttributeError)"

fun parse_records ::
  "builtins \<Rightarrow> string \<Rightarrow> json \<Rightarrow> nat \<Rightarrow> json list
     \<Rightarrow> py_error + (OptionChainEntry list \<times> OptionChainEntry list)" where
  "parse_records env symb underlying now [] = Inr ([], [])"
| "parse_records env symb underlying now (r # rs) =
     (case parse_record env symb underlying now r of
        Inl e \<Rightarrow> Inl e
      | Inr (c, p) \<Rightarrow>
          (case parse_records env symb underlying now rs of
             Inl e \<Rightarrow> Inl e
           | Inr (cs, ps) \<Rightarrow> Inr (c @ cs, p @ ps)))"

text \<open>\<^verbatim>\<open>parse_option_chain\<close>; \<open>now\<close> is the one reading of the clock that becomes
  \<^verbatim>\<open>fetched_at\<close>.\<close>

definition parse_option_chain ::
  "builtins \<Rightarrow> json \<Rightarrow> string \<Rightarrow> nat
     \<Rightarrow> py_error + (OptionChainEntry list \<times> OptionChainEntry list)" where
  "parse_option_chain env raw_data symb now =
     (case py_get raw_data ''records'' (JObj []) of
        Inl e \<Rightarrow> Inl e
      | Inr records \<Rightarrow>
          (case py_get records ''data'' (JArr []) of
             Inl e \<Rightarrow> Inl e
           | Inr data_list \<Rightarrow>
               (case py_get records ''underlyingValue'' JNull of
                  Inl e \<Rightarrow> Inl e
                | Inr underlying \<Rightarrow>
                    (case py_iter data_list of
                       Inl e \<Rightarrow> Inl e
                     | Inr rows \<Rightarrow> parse_records env symb underlying now rows))))"

section \<open>nse\_service.py: the fetcher\<close>

text \<open>
  What the upstream answers to one \<^verbatim>\<open>session.get\<close> is an input of the model: no
  answer at all (the request raises), or a status, a body and the value
  \<^verbatim>\<open>response.json()\<close> reads from the body (\<open>None\<close> where it raises).
\<close>

datatype http_reply = NoReply | Reply nat string "json option"

text \<open>The characters \<^verbatim>\<open>str.strip()\<close> removes, among the code points below 256, which
  are the characters of this model.\<close>

definition is_space :: "char \<Rightarrow> bool" where
  "is_space c = (c \<in> set [CHR 0x20, CHR 0x09, CHR 0x0A, CHR 0x0B, CHR 0x0C, CHR 0x0D,
                           CHR 0x1C, CHR 0x1D, CHR 0x1E, CHR 0x1F, CHR 0x85, CHR 0xA0])"

definition py_strip :: "string \<Rightarrow> string" where
  "py_strip s = rev (dropWhile is_space (rev (dropWhile is_space s)))"

fun starts_with :: "string \<Rightarrow> string \<Rightarrow> bool" where
  "starts_with [] s = True"
| "starts_with (p # ps) [] = False"
| "starts_with (p # ps) (c # cs) = (p = c \<and> starts_with ps cs)"

fun contains_str :: "string \<Rightarrow> string \<Rightarrow> bool" where
  "contains_str pat [] = (pat = [])"
| "contains_str pat (c # cs) = (starts_with pat (c # cs) \<or> contains_str pat cs)"

text \<open>\<^verbatim>\<open>k in v\<close> for a string \<open>k\<close>: a key of a dict, an item of a list, a substring of a
  string; TypeError on the rest.\<close>

fun py_in :: "string \<Rightarrow> json \<Rightarrow> py_error + bool" where
  "py_in k (JObj kv) = Inr (k \<in> set (map fst kv))"
| "py_in k (JArr xs) = Inr (JStr k \<in> set xs)"
| "py_in k (JStr s) = Inr (contains_str k s)"
| "py_in k _ = Inl TypeError"

text \<open>The body of the \<^verbatim>\<open>try\<close> of one attempt, after the request.\<close>

definition fetch_attempt :: "http_reply \<Rightarrow> py_error + json" where
  "fetch_attempt reply =
     (case reply of
        NoReply \<Rightarrow> Inl RequestException
      | Reply status text js \<Rightarrow>
          (if 400 \<le> status \<and> status < 600 then Inl HTTPError
           else let response_text = py_strip text
                in if response_text = [] then Inl ValueError
                   else if starts_with ''<'' response_text then Inl ValueError
                   else (case js of
                           None \<Rightarrow> Inl ValueError
                         | Some data \<Rightarrow>
                             (if \<not> py_truthy data then Inl ValueError
                              else (case py_in ''records'' data of
                                      Inl e \<Rightarrow> Inl e
                                    | Inr present \<Rightarrow>
                                        if \<not> present then Inl ValueError else Inr data)))))"

definition get_fallback_data :: "string \<Rightarrow> json" where
  "get_fallback_data symb =
     JObj [(''records'', JObj
       [(''data'', JArr
          [JObj [(''strikePrice'', JInt 25000),
                 (''expiryDate'', JStr ''30-Jan-2025''),
                 (''CE'', JObj [(''openInterest'', JInt 1500),
                                (''lastPrice'', JFloat 125.75),
                                (''change'', JFloat (- 5.25)),
                                (''pChange'', JFloat (- 4.02)),
                                (''totalTradedVolume'', JInt 8500),
                                (''impliedVolatility'', JFloat 16.8),
                                (''bidQty'', JInt 150),
                                (''bidprice'', JFloat 125.0),
                                (''askPrice'', JFloat 126.0),
                                (''askQty'', JInt 200)]),
                 (''PE'', JObj [(''openInterest'', JInt 2200),
                                (''lastPrice'', JFloat 75.50),
                                (''change'', JFloat 3.25),
                                (''pChange'', JFloat 4.49),
                                (''totalTradedVolume'', JInt 12000),
                                (''impliedVolatility'', JFloat 18.5),
                                (''bidQty'', JInt 100),
                                (''bidprice'', JFloat 75.0),
                                (''askPrice'', JFloat 76.0),
                                (''askQty'', JInt 175)])]]),
        (''underlyingValue'', JFloat 25075.50)])]"

text \<open>
  The loop \<^verbatim>\<open>for attempt in range(3)\<close> of \<^verbatim>\<open>fetch_option_chain\<close>; \<open>replies k\<close> is
  the answer to the request of attempt \<open>k\<close>. The refresh of the session before a
  retry swallows its own exceptions and returns nothing, so it has no part in the
  result. The \<^verbatim>\<open>raise RuntimeError\<close> after the loop is the last branch.
\<close>

function fetch_loop :: "(nat \<Rightarrow> http_reply) \<Rightarrow> string \<Rightarrow> nat \<Rightarrow> py_error + json" where
  "fetch_loop replies symb attempt =
     (if attempt < 3 then
        (case fetch_attempt (replies attempt) of
           Inr data \<Rightarrow> Inr data
         | Inl e \<Rightarrow>
             (if attempt = 2 then Inr (get_fallback_data symb)
              else fetch_loop replies symb (attempt + 1)))
      else Inl RuntimeError)"
  by pat_completeness auto
termination
  by (relation "measure (\<lambda>(replies, symb, attempt). 3 - attempt)") auto

declare fetch_loop.simps [simp del]

definition fetch_option_chain :: "(nat \<Rightarrow> http_reply) \<Rightarrow> string \<Rightarrow> py_error + json" where
  "fetch_option_chain replies symb = fetch_loop replies symb 0"

definition fetch_and_parse ::
  "builtins \<Rightarrow> (nat \<Rightarrow> http_reply) \<Rightarrow> string \<Rightarrow> nat
     \<Rightarrow> py_error + (OptionChainEntry list \<times> OptionChainEntry list)" where
  "fetch_and_parse env replies symb now =
     (case fetch_option_chain replies symb of
        Inl e \<Rightarrow> Inl e
      | Inr raw_data \<Rightarrow> parse_option_chain env raw_data symb now)"

section \<open>nse\_option\_chain\_pipeline.py: the CSV client\<close>

text \<open>
  \<^verbatim>\<open>_convert_json_to_csv_format\<close>: the two header lines, then one line for each record
  of the payload. A value that is falsy is written as nothing, any other value as its
  text between double quotes.
\<close>

definition csv_header :: string where
  "csv_header =
     ''CALLS,,PUTS'' @ [CHR 0x0A]
     @ '',OI,CHNG IN OI,VOLUME,IV,LTP,CHNG,BID QTY,BID,ASK,ASK QTY,STRIKE,BID QTY,BID,ASK,ASK QTY,CHNG,LTP,IV,VOLUME,CHNG IN OI,OI,''
     @ [CHR 0x0A]"

definition ce_keys :: "string list" where
  "ce_keys = [''openInterest'', ''changeinOpenInterest'', ''totalTradedVolume'',
              ''impliedVolatility'', ''lastPrice'', ''change'', ''bidQty'', ''bidprice'',
              ''askPrice'', ''askQty'']"

definition pe_keys :: "string list" where
  "pe_keys = [''bidQty'', ''bidprice'', ''askPrice'', ''askQty'', ''change'', ''lastPrice'',
              ''impliedVolatility'', ''totalTradedVolume'', ''changeinOpenInterest'',
              ''openInterest'']"

definition csv_value :: "builtins \<Rightarrow> json \<Rightarrow> string" where
  "csv_value env val = (if py_truthy val then [CHR 0x22] @ py_str env val @ [CHR 0x22] else '''')"

fun join_commas :: "string list \<Rightarrow> string" where
  "join_commas [] = ''''"
| "join_commas [x] = x"
| "join_commas (x # y # ys) = x @ '','' @ join_commas (y # ys)"

definition side_values :: "(string \<times> json) list \<Rightarrow> string list \<Rightarrow> json list" where
  "side_values side keys =
     map (\<lambda>k. case map_of side k of None \<Rightarrow> JStr '''' | Some v \<Rightarrow> v) keys"

definition convert_record :: "builtins \<Rightarrow> json \<Rightarrow> py_error + string" where
  "convert_record env rec =
     (case rec of
        JObj kv \<Rightarrow>
          (let strike = (case map_of kv ''strikePrice'' of None \<Rightarrow> JStr '''' | Some v \<Rightarrow> v);
               ce_data = (case map_of kv ''CE'' of None \<Rightarrow> JObj [] | Some v \<Rightarrow> v);
               pe_data = (case map_of kv ''PE'' of None \<Rightarrow> JObj [] | Some v \<Rightarrow> v)
           in case (ce_data, pe_data) of
                (JObj ce, JObj pe) \<Rightarrow>
                  Inr (join_commas
                         (map (csv_value env)
                            ([JStr ''''] @ side_values ce ce_keys @ [JStr (py_str env strike)]
                             @ side_values pe pe_keys @ [JStr '''']))
                       @ [CHR 0x0A])
              | _ \<Rightarrow> Inl AttributeError)
      | _ \<Rightarrow> Inl AttributeError)"

fun convert_records :: "builtins \<Rightarrow> json list \<Rightarrow> py_error + string" where
  "convert_records env [] = Inr ''''"
| "convert_records env (r # rs) =
     (case convert_record env r of
        Inl e \<Rightarrow> Inl e
      | Inr line \<Rightarrow>
          (case convert_records env rs of Inl e \<Rightarrow> Inl e | Inr rest \<Rightarrow> Inr (line @ rest)))"

definition convert_json_to_csv_format :: "builtins \<Rightarrow> json \<Rightarrow> py_error + string" where
  "convert_json_to_csv_format env json_data =
     (case py_get json_data ''records'' (JObj []) of
        Inl e \<Rightarrow> Inl e
      | Inr records \<Rightarrow>
          (case py_get records ''data'' (JArr []) of
             Inl e \<Rightarrow> Inl e
           | Inr data_list \<Rightarrow>
               (case py_iter data_list of
                  Inl e \<Rightarrow> Inl e
                | Inr rows \<Rightarrow>
                    (case convert_records env rows of
                       Inl e \<Rightarrow> Inl e
                     | Inr body \<Rightarrow> Inr (csv_header @ body)))))"

text \<open>
  What the world gives one attempt of \<^verbatim>\<open>fetch_option_chain_csv\<close>: whether the refresh
  of the session before a retry returns (in this client \<^verbatim>\<open>_initialize_session\<close> raises
  again what it caught), the answer of the CSV endpoint and the answer of the JSON
  endpoint.
\<close>

record csv_attempt =
  session_refreshed :: bool
  csv_answer :: http_reply
  json_answer :: http_reply

definition csv_endpoint_text :: "http_reply \<Rightarrow> string option" where
  "csv_endpoint_text reply =
     (case reply of
        NoReply \<Rightarrow> None
      | Reply status text js \<Rightarrow>
          (if status = 200 \<and> py_strip text \<noteq> [] then Some text else None))"

definition json_endpoint_text :: "builtins \<Rightarrow> http_reply \<Rightarrow> py_error + string" where
  "json_endpoint_text env reply =
     (case reply of
        NoReply \<Rightarrow> Inl RequestException
      | Reply status text js \<Rightarrow>
          (if 400 \<le> status \<and> status < 600 then Inl HTTPError
           else if py_strip text \<noteq> []
           then (case js of
                   None \<Rightarrow> Inl ValueError
                 | Some json_data \<Rightarrow> convert_json_to_csv_format env json_data)
           else Inl ValueError))"

definition csv_fetch_attempt :: "builtins \<Rightarrow> nat \<Rightarrow> csv_attempt \<Rightarrow> py_error + string" where
  "csv_fetch_attempt env attempt a =
     (if attempt > 0 \<and> \<not> session_refreshed a then Inl RequestException
      else (case csv_endpoint_text (csv_answer a) of
              Some text \<Rightarrow> Inr text
            | None \<Rightarrow> json_endpoint_text env (json_answer a)))"

text \<open>\<^verbatim>\<open>_get_fallback_csv_data\<close>: the local file when it can be read, the two header
  lines otherwise.\<close>

definition get_fallback_csv_data :: "string option \<Rightarrow> string" where
  "get_fallback_csv_data local_file =
     (case local_file of Some content \<Rightarrow> content | None \<Rightarrow> csv_header)"

function fetch_csv_loop ::
  "builtins \<Rightarrow> nat \<Rightarrow> (nat \<Rightarrow> csv_attempt) \<Rightarrow> string option \<Rightarrow> nat \<Rightarrow> py_error + string" where
  "fetch_csv_loop env max_retries world local_file attempt =
     (if attempt < max_retries then
        (case csv_fetch_attempt env attempt (world attempt) of
           Inr text \<Rightarrow> Inr text
         | Inl e \<Rightarrow>
             (if attempt = max_retries - 1 then Inr (get_fallback_csv_data local_file)
              else fetch_csv_loop env max_retries world local_file (attempt + 1)))
      else Inl RuntimeError)"
  by pat_completeness auto
termination
  by (relation "measure (\<lambda>(env, max_retries, world, local_file, attempt). max_retries - attempt)")
     auto

declare fetch_csv_loop.simps [simp del]

definition fetch_option_chain_csv ::
  "builtins \<Rightarrow> nat \<Rightarrow> (nat \<Rightarrow> csv_attempt) \<Rightarrow> string option \<Rightarrow> py_error + string" where
  "fetch_option_chain_csv env max_retries world local_file =
     fetch_csv_loop env max_retries world local_file 0"

section \<open>nse\_option\_chain\_pipeline.py: the CSV parser\<close>

text \<open>
  The frame \<^verbatim>\<open>pd.read_csv\<close> returns is the input: its rows, a row giving a cell
  for a column name. A cell is NaN (a blank), a number, or a string. The call passes no
  \<^verbatim>\<open>na_values\<close>, so a field of the text that is one of the default markers is read
  as NaN, and no string cell of a frame is one of them.
\<close>

datatype cell = NaN | Num rat | Str string

definition read_csv_na_values :: "string list" where
  "read_csv_na_values =
     ['''', ''#N/A'', ''#N/A N/A'', ''#NA'', ''-1.#IND'', ''-1.#QNAN'', ''-NaN'', ''-nan'',
      ''1.#IND'', ''1.#QNAN'', ''<NA>'', ''N/A'', ''NA'', ''NULL'', ''NaN'', ''None'',
      ''n/a'', ''nan'', ''null'']"

definition frame_cell :: "cell \<Rightarrow> bool" where
  "frame_cell c = (case c of Str s \<Rightarrow> s \<notin> set read_csv_na_values | _ \<Rightarrow> True)"

record option_document =
  doc_symbol :: string
  doc_type :: string
  doc_strike_price :: rat
  doc_fetched_at :: nat
  doc_fields :: "(string \<times> cell) list"

definition call_columns :: "(string \<times> string) list" where
  "call_columns =
     [(''OI'', ''open_interest''),
      (''CHNG IN OI'', ''change_in_oi''),
      (''VOLUME'', ''volume''),
      (''IV'', ''implied_volatility''),
      (''LTP'', ''last_traded_price''),
      (''CHNG'', ''change''),
      (''BID QTY'', ''bid_qty''),
      (''BID'', ''bid_price''),
      (''ASK'', ''ask_price''),
      (''ASK QTY'', ''ask_qty'')]"

definition put_columns :: "(string \<times> string) list" where
  "put_columns =
     [(''BID QTY.1'', ''bid_qty''),
      (''BID.1'', ''bid_price''),
      (''ASK.1'', ''ask_price''),
      (''ASK QTY.1'', ''ask_qty''),
      (''CHNG.1'', ''change''),
      (''LTP.1'', ''last_traded_price''),
      (''IV.1'', ''implied_volatility''),
      (''VOLUME.1'', ''volume''),
      (''CHNG IN OI.1'', ''change_in_oi''),
      (''OI.1'', ''open_interest'')]"

text \<open>\<^verbatim>\<open>doc[k] = v\<close> on the keys a document has beyond the four it starts with.\<close>

fun dict_set :: "string \<Rightarrow> cell \<Rightarrow> (string \<times> cell) list \<Rightarrow> (string \<times> cell) list" where
  "dict_set k v [] = [(k, v)]"
| "dict_set k v (p # ps) = (if fst p = k then (k, v) # ps else p # dict_set k v ps)"

definition clean_value :: "string \<Rightarrow> string" where
  "clean_value s = filter (\<lambda>c. c \<noteq> CHR '','' \<and> c \<noteq> CHR 0x22) s"

text \<open>What the body of the loop of \<^verbatim>\<open>_create_option_document\<close> stores for a cell, if
  anything: a number as it is, a string as the float it reads as once commas and double
  quotes are removed, and as that cleaned string when it does not read as one.\<close>

definition convert_cell :: "builtins \<Rightarrow> cell \<Rightarrow> cell option" where
  "convert_cell env c =
     (case c of
        NaN \<Rightarrow> None
      | Num x \<Rightarrow> Some (Num x)
      | Str s \<Rightarrow>
          (if s \<noteq> '''' \<and> s \<noteq> ''-''
           then (case float_of_str env (clean_value s) of
                   Some x \<Rightarrow> Some (Num x)
                 | None \<Rightarrow> Some (Str (clean_value s)))
           else None))"

text \<open>The loop over \<^verbatim>\<open>column_mapping.items()\<close>.\<close>

fun add_mapped_fields ::
  "builtins \<Rightarrow> (string \<times> cell) list \<Rightarrow> (string \<times> string) list \<Rightarrow> (string \<times> cell) list
     \<Rightarrow> (string \<times> cell) list" where
  "add_mapped_fields env row [] doc = doc"
| "add_mapped_fields env row ((csv_col, doc_field) # rest) doc =
     (case map_of row csv_col of
        None \<Rightarrow> add_mapped_fields env row rest doc
      | Some c \<Rightarrow>
          (case convert_cell env c of
             None \<Rightarrow> add_mapped_fields env row rest doc
           | Some v \<Rightarrow> add_mapped_fields env row rest (dict_set doc_field v doc)))"

definition create_option_document ::
  "builtins \<Rightarrow> (string \<times> cell) list \<Rightarrow> (string \<times> string) list \<Rightarrow> string \<Rightarrow> string \<Rightarrow> rat \<Rightarrow> nat
     \<Rightarrow> option_document option" where
  "create_option_document env row column_mapping symb option_type strike now =
     (let doc = add_mapped_fields env row column_mapping []
      in if 4 + length doc > 4
         then Some \<lparr> doc_symbol = symb, doc_type = option_type, doc_strike_price = strike,
                     doc_fetched_at = now, doc_fields = doc \<rparr>
         else None)"

text \<open>
  \<^verbatim>\<open>parse_csv_to_documents\<close> after \<^verbatim>\<open>read_csv\<close>: the column names are stripped, a
  frame without a STRIKE column raises KeyError, and a row is dropped when its STRIKE
  cell is NaN or \<^verbatim>\<open>""\<close> or, without its commas, no number.
\<close>

definition strike_of_cell :: "builtins \<Rightarrow> cell \<Rightarrow> rat option" where
  "strike_of_cell env c =
     (case c of
        NaN \<Rightarrow> None
      | Num x \<Rightarrow> Some x
      | Str s \<Rightarrow> (if s = '''' then None
                  else to_numeric env (filter (\<lambda>ch. ch \<noteq> CHR '','') s)))"

definition one_or_none :: "'a option \<Rightarrow> 'a list" where
  "one_or_none x = (case x of None \<Rightarrow> [] | Some d \<Rightarrow> [d])"

fun transform_to_documents ::
  "builtins \<Rightarrow> (string \<times> cell) list list \<Rightarrow> string \<Rightarrow> nat
     \<Rightarrow> option_document list \<times> option_document list" where
  "transform_to_documents env [] symb now = ([], [])"
| "transform_to_documents env (row # rest) symb now =
     (let (call_docs, put_docs) = transform_to_documents env rest symb now
      in case map_of row ''STRIKE'' of
           None \<Rightarrow> (call_docs, put_docs)
         | Some c \<Rightarrow>
             (case strike_of_cell env c of
                None \<Rightarrow> (call_docs, put_docs)
              | Some strike \<Rightarrow>
                  (one_or_none (create_option_document env row call_columns symb ''CALL'' strike now)
                     @ call_docs,
                   one_or_none (create_option_document env row put_columns symb ''PUT'' strike now)
                     @ put_docs)))"

definition parse_csv_to_documents ::
  "builtins \<Rightarrow> string list \<Rightarrow> (string \<times> cell) list list \<Rightarrow> string \<Rightarrow> nat
     \<Rightarrow> py_error + (option_document list \<times> option_document list)" where
  "parse_csv_to_documents env columns rows symb now =
     (if ''STRIKE'' \<notin> set (map py_strip columns) then Inl KeyError
      else Inr (transform_to_documents env
                  (map (map (\<lambda>(k, v). (py_strip k, v))) rows) symb now))"

section \<open>database\_service.py\<close>

text \<open>
  The collection is the list of its documents, in the order they were inserted, and
  whether the unique index \<^verbatim>\<open>dedup_index\<close> on \<^verbatim>\<open>(identifier, fetched_at)\<close> exists.
  \<open>outages\<close> is the input that says which of the coming writes find the server
  unreachable: each \<^verbatim>\<open>insert_many\<close> takes the head, and raises when it is \<open>True\<close>.
\<close>

record collection =
  docs :: "OptionChainEntry list"
  dedup_index :: bool
  outages :: "bool list"

definition dedup_key :: "OptionChainEntry \<Rightarrow> string \<times> nat" where
  "dedup_key d = (identifier' d, fetched_at d)"

text \<open>\<^verbatim>\<open>_setup_indexes\<close>: the server refuses to build a unique index over documents
  that already share a key, and the exception ends in a warning.\<close>

definition setup_indexes :: "collection \<Rightarrow> collection" where
  "setup_indexes c =
     (if distinct (map dedup_key (docs c)) then c\<lparr>dedup_index := True\<rparr> else c)"

text \<open>
  \<^verbatim>\<open>insert_many(documents, ordered=False)\<close> of the driver: every document is tried, one
  whose key is in the collection under the unique index is a write error, and the
  result is the number inserted with the documents after the call.
\<close>

fun insert_unordered ::
  "bool \<Rightarrow> OptionChainEntry list \<Rightarrow> OptionChainEntry list \<Rightarrow> nat \<times> OptionChainEntry list" where
  "insert_unordered uniq ds [] = (0, ds)"
| "insert_unordered uniq ds (d # rest) =
     (if uniq \<and> dedup_key d \<in> set (map dedup_key ds) then insert_unordered uniq ds rest
      else (let (n, ds') = insert_unordered uniq (ds @ [d]) rest in (Suc n, ds')))"

definition insert_many :: "collection \<Rightarrow> OptionChainEntry list \<Rightarrow> (py_error + nat) \<times> collection" where
  "insert_many c documents =
     (if documents = [] then (Inl TypeError, c)
      else if outages c \<noteq> [] \<and> hd (outages c) then (Inl ConnectionFailure, c\<lparr>outages := tl (outages c)\<rparr>)
      else (let (n, ds') = insert_unordered (dedup_index c) (docs c) documents;
                c' = c\<lparr>docs := ds', outages := tl (outages c)\<rparr>
            in if n = length documents then (Inr n, c') else (Inl (BulkWriteError n), c')))"

record insert_stats =
  inserted :: nat
  skipped :: nat

definition bulk_insert_with_dedup ::
  "collection \<Rightarrow> OptionChainEntry list \<Rightarrow> string \<Rightarrow> (py_error + insert_stats) \<times> collection" where
  "bulk_insert_with_dedup c options option_type =
     (if options = [] then (Inr \<lparr>inserted = 0, skipped = 0\<rparr>, c)
      else (case insert_many c options of
              (Inr n, c') \<Rightarrow> (Inr \<lparr>inserted = n, skipped = 0\<rparr>, c')
            | (Inl (BulkWriteError n), c') \<Rightarrow>
                (Inr \<lparr>inserted = n, skipped = length options - n\<rparr>, c')
            | (Inl e, c') \<Rightarrow> (Inl e, c')))"

record storage_stats =
  calls_inserted :: nat
  puts_inserted :: nat
  calls_skipped :: nat
  puts_skipped :: nat
  total_processed :: nat

definition store_option_data ::
  "collection \<Rightarrow> OptionChainEntry list \<Rightarrow> OptionChainEntry list
     \<Rightarrow> (py_error + storage_stats) \<times> collection" where
  "store_option_data c call_options put_options =
     (let stats = \<lparr>calls_inserted = 0, puts_inserted = 0, calls_skipped = 0, puts_skipped = 0,
                   total_processed = 0\<rparr>;
          (r1, c1) = (if call_options \<noteq> []
                      then (case bulk_insert_with_dedup c call_options ''CALL'' of
                              (Inl e, c') \<Rightarrow> (Inl e, c')
                            | (Inr call_stats, c') \<Rightarrow>
                                (Inr (stats\<lparr>calls_inserted := inserted call_stats,
                                            calls_skipped := skipped call_stats\<rparr>), c'))
                      else (Inr stats, c))
      in case r1 of
           Inl e \<Rightarrow> (Inl e, c1)
         | Inr stats1 \<Rightarrow>
             (let (r2, c2) = (if put_options \<noteq> []
                              then (case bulk_insert_with_dedup c1 put_options ''PUT'' of
                                      (Inl e, c') \<Rightarrow> (Inl e, c')
                                    | (Inr put_stats, c') \<Rightarrow>
                                        (Inr (stats1\<lparr>puts_inserted := inserted put_stats,
                                                     puts_skipped := skipped put_stats\<rparr>), c'))
                              else (Inr stats1, c1))
              in case r2 of
                   Inl e \<Rightarrow> (Inl e, c2)
                 | Inr stats2 \<Rightarrow>
                     (Inr (stats2\<lparr>total_processed := length call_options + length put_options\<rparr>),
                      c2)))"

text \<open>
  \<^verbatim>\<open>get_latest_option_data\<close>. \<^verbatim>\<open>find_one\<close> under a descending sort gives a document
  with the greatest \<^verbatim>\<open>fetched_at\<close>; \<^verbatim>\<open>limit(0)\<close> of a cursor is no limit. The sort keeps
  documents of one strike price in the order of the collection.
\<close>

definition cursor_limit :: "nat \<Rightarrow> 'a list \<Rightarrow> 'a list" where
  "cursor_limit n xs = (if n = 0 then xs else take n xs)"

definition find_docs :: "collection \<Rightarrow> string \<Rightarrow> OptionType \<Rightarrow> nat \<Rightarrow> OptionChainEntry list" where
  "find_docs c symb ty latest_time =
     filter (\<lambda>d. symbol d = symb \<and> opt_type d = ty \<and> fetched_at d = latest_time) (docs c)"

definition find_latest ::
  "collection \<Rightarrow> string \<Rightarrow> OptionType \<Rightarrow> nat \<Rightarrow> nat \<Rightarrow> OptionChainEntry list" where
  "find_latest c symb ty latest_time limit =
     cursor_limit limit (sort_key strike_price (find_docs c symb ty latest_time))"

definition get_latest_option_data ::
  "collection \<Rightarrow> string \<Rightarrow> nat \<Rightarrow> OptionChainEntry list \<times> OptionChainEntry list" where
  "get_latest_option_data c symb limit =
     (case filter (\<lambda>d. symbol d = symb) (docs c) of
        [] \<Rightarrow> ([], [])
      | d # ds \<Rightarrow>
          (let latest_time = fold max (map fetched_at ds) (fetched_at d)
           in (find_latest c symb CALL latest_time limit,
               find_latest c symb PUT latest_time limit)))"

section \<open>data\_pipeline.py\<close>

record pipeline_totals =
  total_calls_inserted :: nat
  total_puts_inserted :: nat
  total_calls_skipped :: nat
  total_puts_skipped :: nat

record DataPipeline =
  symbols :: "string list"
  running :: bool
  total_cycles :: nat
  successful_cycles :: nat
  failed_cycles :: nat
  last_successful_fetch :: "nat option"
  stats :: pipeline_totals
  db :: collection

text \<open>
  What the world gives one cycle: the answers of the upstream to its attempts, the
  two readings of the clock (the one that becomes \<^verbatim>\<open>fetched_at\<close>, and the one taken
  after the store), and whether a shutdown signal arrives while the cycle runs.
\<close>

record cycle_input =
  cycle_replies :: "nat \<Rightarrow> http_reply"
  parse_clock :: nat
  store_clock :: nat
  signal :: bool

text \<open>The dict a cycle returns, without its \<^verbatim>\<open>cycle_time\<close>; a key the dict does not
  have is \<open>None\<close>.\<close>

record cycle_result =
  result_symbol :: string
  success :: bool
  error :: "py_error option"
  calls_processed :: "nat option"
  puts_processed :: "nat option"
  storage :: "storage_stats option"

definition cycle_failed :: "string \<Rightarrow> py_error \<Rightarrow> cycle_result" where
  "cycle_failed symb e =
     \<lparr> result_symbol = symb, success = False, error = Some e, calls_processed = None,
       puts_processed = None, storage = None \<rparr>"

definition add_totals :: "pipeline_totals \<Rightarrow> storage_stats \<Rightarrow> pipeline_totals" where
  "add_totals t s =
     \<lparr> total_calls_inserted = total_calls_inserted t + calls_inserted s,
       total_puts_inserted = total_puts_inserted t + puts_inserted s,
       total_calls_skipped = total_calls_skipped t + calls_skipped s,
       total_puts_skipped = total_puts_skipped t + puts_skipped s \<rparr>"

text \<open>\<^verbatim>\<open>run_single_cycle\<close>: the \<^verbatim>\<open>try\<close> block, and the handler of
  \<^verbatim>\<open>except Exception\<close> as the two failing branches.\<close>

definition run_single_cycle ::
  "builtins \<Rightarrow> cycle_input \<Rightarrow> string \<Rightarrow> DataPipeline \<Rightarrow> cycle_result \<times> DataPipeline" where
  "run_single_cycle env inp symb p =
     (case fetch_and_parse env (cycle_replies inp) symb (parse_clock inp) of
        Inl e \<Rightarrow> (cycle_failed symb e, p)
      | Inr (call_options, put_options) \<Rightarrow>
          (case store_option_data (db p) call_options put_options of
             (Inl e, c') \<Rightarrow> (cycle_failed symb e, p\<lparr>db := c'\<rparr>)
           | (Inr storage_stats, c') \<Rightarrow>
               (\<lparr> result_symbol = symb, success = True, error = None,
                   calls_processed = Some (length call_options),
                   puts_processed = Some (length put_options),
                   storage = Some storage_stats \<rparr>,
                p\<lparr> db := c',
                   stats := add_totals (stats p) storage_stats,
                   last_successful_fetch := Some (store_clock inp) \<rparr>)))"

text \<open>
  The loop \<^verbatim>\<open>for symbol in self.symbols\<close> of one pass of \<^verbatim>\<open>run_continuous\<close>;
  \<open>world i\<close> is what the world gives the cycle of the symbol at position \<open>i\<close>. The
  results are returned in the order of the cycles, with the pipeline and
  \<^verbatim>\<open>cycle_success\<close>.
\<close>

fun process_symbols ::
  "builtins \<Rightarrow> (nat \<Rightarrow> cycle_input) \<Rightarrow> nat \<Rightarrow> string list \<Rightarrow> DataPipeline \<Rightarrow> bool
     \<Rightarrow> cycle_result list \<times> DataPipeline \<times> bool" where
  "process_symbols env world i [] p cycle_success = ([], p, cycle_success)"
| "process_symbols env world i (symb # rest) p cycle_success =
     (if \<not> running p then ([], p, cycle_success)
      else (let (result, p1) = run_single_cycle env (world i) symb p;
                p2 = (if signal (world i) then p1\<lparr>running := False\<rparr> else p1);
                (results, p3, ok) =
                   process_symbols env world (Suc i) rest p2 (cycle_success \<and> success result)
            in (result # results, p3, ok)))"

definition run_tick ::
  "builtins \<Rightarrow> (nat \<Rightarrow> cycle_input) \<Rightarrow> DataPipeline \<Rightarrow> cycle_result list \<times> DataPipeline" where
  "run_tick env world p =
     (let p0 = p\<lparr>total_cycles := total_cycles p + 1\<rparr>;
          (results, p1, cycle_success) = process_symbols env world 0 (symbols p0) p0 True
      in (results,
          if cycle_success then p1\<lparr>successful_cycles := successful_cycles p1 + 1\<rparr>
          else p1\<lparr>failed_cycles := failed_cycles p1 + 1\<rparr>))"

text \<open>
  \<^verbatim>\<open>while self.running\<close>, over the passes the given worlds cover: the pipeline after
  them, or after the pass in which the flag went down. The flag of the result tells
  which.
\<close>

fun run_passes :: "builtins \<Rightarrow> (nat \<Rightarrow> cycle_input) list \<Rightarrow> DataPipeline \<Rightarrow> DataPipeline" where
  "run_passes env [] p = p"
| "run_passes env (world # worlds) p =
     (if \<not> running p then p else run_passes env worlds (snd (run_tick env world p)))"

definition run_continuous :: "builtins \<Rightarrow> (nat \<Rightarrow> cycle_input) list \<Rightarrow> DataPipeline \<Rightarrow> DataPipeline" where
  "run_continuous env worlds p = run_passes env worlds (p\<lparr>running := True\<rparr>)"

section \<open>A concrete host for the examples\<close>

text \<open>
  The examples below run on this instance of the builtins. It reads a string as a
  float when the string, stripped, is an optional sign and decimal digits with at most
  one point, and prints a float with its integer part and its decimals. Python reads
  more strings than these (exponents, \<^verbatim>\<open>inf\<close>, \<^verbatim>\<open>nan\<close>, underscores); none occurs in an
  example. The text of a list or of a dict never reaches an entry, since the validation
  refuses both as a strike price and as an expiry date. Its pydantic is pydantic 1: a
  number given for a string is stored as its text, a bool or a string given for a float
  goes through \<^verbatim>\<open>float\<close>, and an int too large for a float is refused.
\<close>

definition digit_val :: "char \<Rightarrow> nat option" where
  "digit_val c =
     map_of [(CHR ''0'', 0), (CHR ''1'', 1), (CHR ''2'', 2), (CHR ''3'', 3), (CHR ''4'', 4),
             (CHR ''5'', 5), (CHR ''6'', 6), (CHR ''7'', 7), (CHR ''8'', 8), (CHR ''9'', 9)] c"

fun digits_val :: "string \<Rightarrow> nat \<Rightarrow> nat option" where
  "digits_val [] acc = Some acc"
| "digits_val (c # cs) acc =
     (case digit_val c of None \<Rightarrow> None | Some d \<Rightarrow> digits_val cs (10 * acc + d))"

definition unsigned_decimal :: "string \<Rightarrow> rat option" where
  "unsigned_decimal s =
     (let ip = takeWhile (\<lambda>c. c \<noteq> CHR ''.'') s;
          fp = drop (Suc (length ip)) s
      in if ip = [] \<and> fp = [] then None
         else (case (digits_val ip 0, digits_val fp 0) of
                 (Some i, Some f) \<Rightarrow> Some (of_nat i + of_nat f / 10 ^ length fp)
               | _ \<Rightarrow> None))"

definition decimal_of_str :: "string \<Rightarrow> rat option" where
  "decimal_of_str s =
     (case py_strip s of
        [] \<Rightarrow> None
      | c # cs \<Rightarrow>
          (if c = CHR ''-'' then map_option uminus (unsigned_decimal cs)
           else if c = CHR ''+'' then unsigned_decimal cs
           else unsigned_decimal (c # cs)))"

fun frac_digits :: "nat \<Rightarrow> rat \<Rightarrow> string" where
  "frac_digits 0 r = []"
| "frac_digits (Suc n) r =
     (if r = 0 then []
      else (let d = nat \<lfloor>r * 10\<rfloor> in digit_char d # frac_digits n (r * 10 - of_nat d)))"

definition decimal_str :: "rat \<Rightarrow> string" where
  "decimal_str r =
     (let a = \<bar>r\<bar>; i = nat \<lfloor>a\<rfloor>; f = frac_digits 17 (a - of_nat i)
      in (if r < 0 then ''-'' else []) @ str_of_nat i @ ''.'' @ (if f = [] then ''0'' else f))"

definition host_str_field :: "json \<Rightarrow> string option" where
  "host_str_field v =
     (case v of
        JInt i \<Rightarrow> Some (str_of_int i)
      | JFloat r \<Rightarrow> Some (decimal_str r)
      | JBool b \<Rightarrow> Some (if b then ''True'' else ''False'')
      | _ \<Rightarrow> None)"

definition host_float_field :: "json \<Rightarrow> rat option" where
  "host_float_field v =
     (case v of
        JBool b \<Rightarrow> Some (if b then 1 else 0)
      | JStr s \<Rightarrow> decimal_of_str s
      | _ \<Rightarrow> None)"

definition host :: builtins where
  "host = \<lparr> float_of_str = decimal_of_str, str_of_float = decimal_str,
            str_of_container = (\<lambda>v. ''[...]''), to_numeric = decimal_of_str,
            str_field = host_str_field, float_field = host_float_field \<rparr>"

section \<open>Scenarios\<close>

text \<open>The payload of the end-to-end scenario: one row, with a last price on each side.\<close>

definition scenario_payload :: json where
  "scenario_payload =
     JObj [(''records'', JObj [(''data'', JArr
       [JObj [(''strikePrice'', JInt 25000),
              (''expiryDate'', JStr ''30-Jan-2025''),
              (''CE'', JObj [(''lastPrice'', JFloat 125.75)]),
              (''PE'', JObj [(''lastPrice'', JFloat 75.50)])]])])]"

text \<open>Three attempts without an answer, and three attempts that fail in three ways:
  an HTML page under status 200, a status 503, and no answer.\<close>

definition upstream_down :: "nat \<Rightarrow> http_reply" where
  "upstream_down attempt = NoReply"

definition rate_limited :: "nat \<Rightarrow> http_reply" where
  "rate_limited attempt =
     (if attempt = 0 then Reply 200 ''<html><body>Access Denied</body></html>'' None
      else if attempt = 1 then Reply 503 '''' None
      else NoReply)"

text \<open>Entries for the examples of the store: a NIFTY contract of the given type and
  strike price, fetched at the given time, with a last price.\<close>

definition sample_entry :: "OptionType \<Rightarrow> nat \<Rightarrow> nat \<Rightarrow> OptionChainEntry" where
  "sample_entry ty k t =
     \<lparr> symbol = ''NIFTY'', opt_type = ty, strike_price = of_nat k,
       expiry_date = ''30-Jan-2025'',
       identifier' = ''NIFTY_'' @ option_type_value ty @ ''_'' @ str_of_nat k @ ''_30-Jan-2025'',
       fetched_at = t, open_interest = None, change_in_oi = None, pchange_in_oi = None,
       last_price = Some 1, change = None, pchange = None, total_traded_volume = None,
       implied_volatility = None, bid_qty = None, bid_price = None, ask_price = None,
       ask_qty = None, underlying_value = None \<rparr>"

text \<open>An empty collection after \<^verbatim>\<open>_setup_indexes\<close>, and a collection that holds 101 calls
  of one fetch, with strike prices 0 to 100, after an older call.\<close>

definition fresh_store :: collection where
  "fresh_store = setup_indexes \<lparr>docs = [], dedup_index = False, outages = []\<rparr>"

definition big_store :: collection where
  "big_store =
     \<lparr> docs = sample_entry CALL 50 3 # map (\<lambda>k. sample_entry CALL k 7) [0..<101],
       dedup_index = True, outages = [] \<rparr>"

text \<open>The calls a payload gives that lists one contract twice, with two last prices.\<close>

definition repeated_calls :: "OptionChainEntry list" where
  "repeated_calls =
     [sample_entry CALL 25000 7, (sample_entry CALL 25000 7)\<lparr>last_price := Some 2\<rparr>]"

definition one_call :: "OptionChainEntry list" where
  "one_call = [sample_entry CALL 25000 7]"

definition one_put :: "OptionChainEntry list" where
  "one_put = [sample_entry PUT 25000 7]"

text \<open>
  What \<^verbatim>\<open>latestSnapshot\<close> is to return for one option type, in the words of the
  specification and with the limit of the code: \<open>out\<close> is in ascending order of strike
  price; its records are records of the collection for the symbol and the type whose
  \<^verbatim>\<open>fetched_at\<close> is the greatest one stored for the symbol; it holds all of them when
  the limit is 0 or is not exceeded, and otherwise \<open>limit\<close> of them, none with a
  greater strike price than a record left out.
\<close>

definition latest_time :: "collection \<Rightarrow> string \<Rightarrow> nat" where
  "latest_time c symb = Max (fetched_at ` {d \<in> set (docs c). symbol d = symb})"

definition latest_slice ::
  "collection \<Rightarrow> string \<Rightarrow> OptionType \<Rightarrow> nat \<Rightarrow> OptionChainEntry list \<Rightarrow> bool" where
  "latest_slice c symb ty limit out =
     (let wanted = find_docs c symb ty (latest_time c symb)
      in sorted (map strike_price out)
         \<and> (\<forall>e\<in>set out. e \<in> set (docs c) \<and> symbol e = symb \<and> opt_type e = ty
                           \<and> fetched_at e = latest_time c symb)
         \<and> mset out \<subseteq># mset wanted
         \<and> length out = (if limit = 0 then length wanted else min limit (length wanted))
         \<and> (limit = 0 \<or> length wanted \<le> limit \<longrightarrow> mset out = mset wanted)
         \<and> (\<forall>e\<in>set out. \<forall>d\<in>#mset wanted - mset out. strike_price e \<le> strike_price d))"

text \<open>The number of \<^verbatim>\<open>insert_many\<close> calls \<^verbatim>\<open>store_option_data\<close> issues for two lists
  of entries when none of them raises: one for each list that is not empty.\<close>

definition inserts_issued :: "OptionChainEntry list \<Rightarrow> OptionChainEntry list \<Rightarrow> nat" where
  "inserts_issued call_options put_options =
     (if call_options = [] then 0 else 1) + (if put_options = [] then 0 else 1)"

text \<open>The two entries the parser makes of the fallback payload.\<close>

definition fallback_call :: "string \<Rightarrow> nat \<Rightarrow> OptionChainEntry" where
  "fallback_call symb now =
     \<lparr> symbol = symb, opt_type = CALL, strike_price = 25000,
       expiry_date = ''30-Jan-2025'', identifier' = symb @ ''_CE_25000_30-Jan-2025'',
       fetched_at = now, open_interest = Some 1500, change_in_oi = None,
       pchange_in_oi = None, last_price = Some 125.75, change = Some (- 5.25),
       pchange = Some (- 4.02), total_traded_volume = Some 8500,
       implied_volatility = Some 16.8, bid_qty = Some 150, bid_price = Some 125.0,
       ask_price = Some 126.0, ask_qty = Some 200, underlying_value = Some 25075.50 \<rparr>"

definition fallback_put :: "string \<Rightarrow> nat \<Rightarrow> OptionChainEntry" where
  "fallback_put symb now =
     \<lparr> symbol = symb, opt_type = PUT, strike_price = 25000,
       expiry_date = ''30-Jan-2025'', identifier' = symb @ ''_PE_25000_30-Jan-2025'',
       fetched_at = now, open_interest = Some 2200, change_in_oi = None,
       pchange_in_oi = None, last_price = Some 75.50, change = Some 3.25,
       pchange = Some 4.49, total_traded_volume = Some 12000,
       implied_volatility = Some 18.5, bid_qty = Some 100, bid_price = Some 75.0,
       ask_price = Some 76.0, ask_qty = Some 175, underlying_value = Some 25075.50 \<rparr>"

text \<open>
  A pipeline over two symbols, and what the world gives one pass over them: for the
  first symbol the upstream answers with a JSON list that holds the word
  \<^verbatim>\<open>records\<close>, which the fetcher lets through and the parser cannot read; for the
  second the upstream is down, so the fallback payload is parsed and stored.
\<close>

definition two_symbols :: DataPipeline where
  "two_symbols =
     \<lparr> symbols = [''NIFTY'', ''BANKNIFTY''], running = True, total_cycles = 0,
       successful_cycles = 0, failed_cycles = 0, last_successful_fetch = Some 5,
       stats = \<lparr> total_calls_inserted = 0, total_puts_inserted = 0,
                 total_calls_skipped = 0, total_puts_skipped = 0 \<rparr>,
       db = fresh_store \<rparr>"

definition list_reply :: "nat \<Rightarrow> http_reply" where
  "list_reply attempt = Reply 200 ''[\"records\"]'' (Some (JArr [JStr ''records'']))"

definition mixed_pass :: "nat \<Rightarrow> cycle_input" where
  "mixed_pass i =
     (if i = 0
      then \<lparr> cycle_replies = list_reply, parse_clock = 10, store_clock = 11, signal = False \<rparr>
      else \<lparr> cycle_replies = upstream_down, parse_clock = 20, store_clock = 21, signal = False \<rparr>)"

text \<open>The same pipeline when the next write finds the server unreachable.\<close>

definition unreachable_store :: DataPipeline where
  "unreachable_store = two_symbols\<lparr>db := fresh_store\<lparr>outages := [True]\<rparr>\<rparr>"

text \<open>What the world gives a cycle when the upstream answers, on the first attempt, with
  a payload that has no rows.\<close>

definition no_rows_payload :: json where
  "no_rows_payload = JObj [(''records'', JObj [(''data'', JArr [])])]"

definition no_rows_cycle :: cycle_input where
  "no_rows_cycle =
     \<lparr> cycle_replies = (\<lambda>attempt. Reply 200 ''{\"records\": {\"data\": []}}'' (Some no_rows_payload)),
       parse_clock = 30, store_clock = 31, signal = False \<rparr>"

text \<open>
  The raw values the specification wants stored as absent: \<^verbatim>\<open>None\<close>, the empty
  string, \<^verbatim>\<open>"-"\<close>, and a string that \<^verbatim>\<open>float\<close> does not read.
\<close>

fun unusable :: "builtins \<Rightarrow> json \<Rightarrow> bool" where
  "unusable env JNull = True"
| "unusable env (JStr s) = (s = '''' \<or> s = ''-'' \<or> float_of_str env s = None)"
| "unusable env _ = False"

text \<open>\<^verbatim>\<open>getattr(entry, name)\<close> for the twelve market fields the mapping names.\<close>

definition market_field :: "string \<Rightarrow> OptionChainEntry \<Rightarrow> rat option" where
  "market_field name e =
     (if name = ''open_interest'' then open_interest e
      else if name = ''change_in_oi'' then change_in_oi e
      else if name = ''pchange_in_oi'' then pchange_in_oi e
      else if name = ''last_price'' then last_price e
      else if name = ''change'' then change e
      else if name = ''pchange'' then pchange e
      else if name = ''total_traded_volume'' then total_traded_volume e
      else if name = ''implied_volatility'' then implied_volatility e
      else if name = ''bid_qty'' then bid_qty e
      else if name = ''bid_price'' then bid_price e
      else if name = ''ask_price'' then ask_price e
      else if name = ''ask_qty'' then ask_qty e
      else None)"

text \<open>The rows the loop of \<^verbatim>\<open>parse_option_chain\<close> visits in a payload, and the
  underlying value it reads from it.\<close>

definition payload_rows :: "json \<Rightarrow> json list" where
  "payload_rows raw_data =
     (case py_get raw_data ''records'' (JObj []) of
        Inl e \<Rightarrow> []
      | Inr records \<Rightarrow>
          (case py_get records ''data'' (JArr []) of
             Inl e \<Rightarrow> []
           | Inr data_list \<Rightarrow> (case py_iter data_list of Inl e \<Rightarrow> [] | Inr rows \<Rightarrow> rows)))"





definition negative_payload :: json where
  "negative_payload =
     JObj [(''records'', JObj [(''data'', JArr
       [JObj [(''strikePrice'', JInt (- 5)),
              (''CE'', JObj [(''lastPrice'', JFloat 125.75)])]])])]"

definition worded_side :: "(string \<times> json) list" where
  "worded_side = [(''openInterest'', JStr ''n/a''), (''lastPrice'', JFloat 125.75)]"


text \<open>
  A row of a frame, with the cells of the call side that are not blank, and a blank one:
  the strike price 25200, the open interest \<^verbatim>\<open>abc\<close>, which is a word that is none of
  the markers of NaN, the last price \<^verbatim>\<open>-\<close>, a blank implied volatility and the
  volume \<^verbatim>\<open>1,250\<close>. And the call document the parser makes of it.
\<close>

definition worded_row :: "(string \<times> cell) list" where
  "worded_row = [(''STRIKE'', Num 25200), (''OI'', Str ''abc''), (''LTP'', Str ''-''),
                 (''IV'', NaN), (''VOLUME'', Str ''1,250'')]"

definition worded_document :: option_document where
  "worded_document =
     \<lparr> doc_symbol = ''NIFTY'', doc_type = ''CALL'', doc_strike_price = 25200,
       doc_fetched_at = 7,
       doc_fields = [(''open_interest'', Str ''abc''), (''volume'', Num 1250)] \<rparr>"

text \<open>The two entries of the end-to-end scenario, and a row whose strike price is a
  word.\<close>

definition scenario_call :: "nat \<Rightarrow> OptionChainEntry" where
  "scenario_call now =
     \<lparr> symbol = ''NIFTY'', opt_type = CALL, strike_price = 25000,
       expiry_date = ''30-Jan-2025'', identifier' = ''NIFTY_CE_25000_30-Jan-2025'',
       fetched_at = now, open_interest = None, change_in_oi = None, pchange_in_oi = None,
       last_price = Some 125.75, change = None, pchange = None,
       total_traded_volume = None, implied_volatility = None, bid_qty = None,
       bid_price = None, ask_price = None, ask_qty = None, underlying_value = None \<rparr>"

definition scenario_put :: "nat \<Rightarrow> OptionChainEntry" where
  "scenario_put now =
     \<lparr> symbol = ''NIFTY'', opt_type = PUT, strike_price = 25000,
       expiry_date = ''30-Jan-2025'', identifier' = ''NIFTY_PE_25000_30-Jan-2025'',
       fetched_at = now, open_interest = None, change_in_oi = None, pchange_in_oi = None,
       last_price = Some 75.50, change = None, pchange = None,
       total_traded_volume = None, implied_volatility = None, bid_qty = None,
       bid_price = None, ask_price = None, ask_qty = None, underlying_value = None \<rparr>"

definition worded_strike_row :: "(string \<times> json) list" where
  "worded_strike_row =
     [(''strikePrice'', JStr ''n/a''), (''expiryDate'', JStr ''30-Jan-2025''),
      (''CE'', JObj worded_side)]"

text \<open>The CSV client with both endpoints unreachable on every attempt.\<close>

definition csv_down :: "nat \<Rightarrow> csv_attempt" where
  "csv_down attempt = \<lparr> session_refreshed = True, csv_answer = NoReply, json_answer = NoReply \<rparr>"

section \<open>Properties of the parser\<close>

lemma str_of_int_25000: "str_of_int 25000 = ''25000''"
  by (simp add: str_of_int_def str_of_nat.simps digit_char_def)

lemma small_int_converts: "\<bar>i\<bar> < 2 ^ 64 \<Longrightarrow> \<not> too_large_for_float i"
  by (simp add: too_large_for_float_def)

lemma scenario_parse:
  "parse_option_chain env scenario_payload ''NIFTY'' now =
     Inr ([\<lparr> symbol = ''NIFTY'', opt_type = CALL, strike_price = 25000,
              expiry_date = ''30-Jan-2025'', identifier' = ''NIFTY_CE_25000_30-Jan-2025'',
              fetched_at = now, open_interest = None, change_in_oi = None, pchange_in_oi = None,
              last_price = Some 125.75, change = None, pchange = None,
              total_traded_volume = None, implied_volatility = None, bid_qty = None,
              bid_price = None, ask_price = None, ask_qty = None, underlying_value = None \<rparr>],
          [\<lparr> symbol = ''NIFTY'', opt_type = PUT, strike_price = 25000,
              expiry_date = ''30-Jan-2025'', identifier' = ''NIFTY_PE_25000_30-Jan-2025'',
              fetched_at = now, open_interest = None, change_in_oi = None, pchange_in_oi = None,
              last_price = Some 75.50, change = None, pchange = None,
              total_traded_volume = None, implied_volatility = None, bid_qty = None,
              bid_price = None, ask_price = None, ask_qty = None, underlying_value = None \<rparr>])"
  by (simp add: scenario_payload_def parse_option_chain_def parse_record_def side_entry_def
      create_option_entry_def row_strike_def row_expiry_def str_of_int_25000 NSE_FIELD_MAPPING_def
      validated_fields_def field_value_def validate_prices_def validate_quantities_def
      validate_percentages_def small_int_converts Let_def)

text \<open>
  C9. On the payload with the one row (strike price 25000, expiry date 30-Jan-2025, a
  last price of 125.75 on the call side and of 75.50 on the put side), the parser run
  for NIFTY returns exactly one call entry and exactly one put entry; the call has last
  price 125.75, the put has last price 75.50, both carry the same \<^verbatim>\<open>fetched_at\<close>, and
  their identifiers are \<^verbatim>\<open>NIFTY_CE_25000_30-Jan-2025\<close> and
  \<^verbatim>\<open>NIFTY_PE_25000_30-Jan-2025\<close>. This holds whatever the builtins and the clock are.
\<close>

theorem scenario_one_call_one_put:
  "\<exists>c p. parse_option_chain env scenario_payload ''NIFTY'' now = Inr ([c], [p])
     \<and> opt_type c = CALL \<and> last_price c = Some 125.75
     \<and> opt_type p = PUT \<and> last_price p = Some 75.50
     \<and> fetched_at c = fetched_at p
     \<and> identifier' c = ''NIFTY_CE_25000_30-Jan-2025''
     \<and> identifier' p = ''NIFTY_PE_25000_30-Jan-2025''"
  by (simp add: scenario_parse)

section \<open>Properties of the fetcher\<close>

lemma fetch_loop_never_raises:
  "attempt < 3 \<Longrightarrow> \<exists>data. fetch_loop replies symb attempt = Inr data"
proof (induction replies symb attempt rule: fetch_loop.induct)
  case (1 replies symb attempt)
  show ?case
  proof (cases "fetch_attempt (replies attempt)")
    case (Inr d)
    with "1.prems" show ?thesis by (simp add: fetch_loop.simps)
  next
    case (Inl e)
    show ?thesis
    proof (cases "attempt = 2")
      case True
      with Inl show ?thesis by (simp add: fetch_loop.simps)
    next
      case False
      with "1.prems" have "attempt + 1 < 3" by simp
      with "1.IH"[OF "1.prems" Inl False]
      obtain d where "fetch_loop replies symb (attempt + 1) = Inr d"
        by blast
      with Inl False "1.prems" show ?thesis by (subst fetch_loop.simps) simp
    qed
  qed
qed

lemma fetch_option_chain_never_raises: "\<exists>data. fetch_option_chain replies symb = Inr data"
  by (simp add: fetch_option_chain_def fetch_loop_never_raises)

lemma fetch_loop_exhausted:
  assumes "fetch_attempt (replies 0) = Inl e0"
    and "fetch_attempt (replies 1) = Inl e1"
    and "fetch_attempt (replies 2) = Inl e2"
  shows "fetch_option_chain replies symb = Inr (get_fallback_data symb)"
proof -
  have "fetch_loop replies symb (Suc (Suc 0)) = Inr (get_fallback_data symb)"
    using assms(3) by (subst fetch_loop.simps) (simp add: eval_nat_numeral)
  then have "fetch_loop replies symb (Suc 0) = Inr (get_fallback_data symb)"
    using assms(2) by (subst fetch_loop.simps) (simp add: eval_nat_numeral)
  then have "fetch_loop replies symb 0 = Inr (get_fallback_data symb)"
    using assms(1) by (subst fetch_loop.simps) (simp add: eval_nat_numeral)
  then show ?thesis by (simp add: fetch_option_chain_def)
qed

lemma fetch_csv_loop_exhausted:
  "attempt < max_retries \<Longrightarrow>
   (\<forall>k<max_retries. \<exists>e. csv_fetch_attempt env k (world k) = Inl e) \<Longrightarrow>
     fetch_csv_loop env max_retries world local_file attempt = Inr (get_fallback_csv_data local_file)"
proof (induction env max_retries world local_file attempt rule: fetch_csv_loop.induct)
  case (1 env max_retries world local_file attempt)
  from "1.prems" obtain e where e: "csv_fetch_attempt env attempt (world attempt) = Inl e"
    by blast
  show ?case
  proof (cases "attempt = max_retries - 1")
    case True
    with e "1.prems"(1) show ?thesis by (subst fetch_csv_loop.simps) simp
  next
    case False
    with "1.prems"(1) have next_attempt: "attempt + 1 < max_retries" by simp
    from "1.IH"[OF "1.prems"(1) e False next_attempt "1.prems"(2)] e False "1.prems"(1)
    show ?thesis by (subst fetch_csv_loop.simps) simp
  qed
qed

lemma fetch_csv_no_attempt: "fetch_option_chain_csv env 0 world local_file = Inl RuntimeError"
  by (simp add: fetch_option_chain_csv_def fetch_csv_loop.simps)

text \<open>
  C2, as the code has it. When each of the three attempts of \<^verbatim>\<open>fetch_option_chain\<close>
  fails, whatever the three errors are, the call does not raise: it returns the static
  fallback payload of \<^verbatim>\<open>_get_fallback_data\<close>. No error value carries the last failure
  to the caller, and no configuration flag takes part in the choice. The CSV client
  does the same: when each of its \<^verbatim>\<open>MAX_RETRIES\<close> attempts fails, and there is at
  least one, \<^verbatim>\<open>fetch_option_chain_csv\<close> returns the text of
  \<^verbatim>\<open>_get_fallback_csv_data\<close>.
\<close>

theorem fetch_exhausted_returns_fallback:
  "(fetch_attempt (replies 0) = Inl ea \<and> fetch_attempt (replies 1) = Inl eb
      \<and> fetch_attempt (replies 2) = Inl ec
    \<longrightarrow> fetch_option_chain replies symb = Inr (get_fallback_data symb))
   \<and> (0 < max_retries \<and> (\<forall>k<max_retries. \<exists>e. csv_fetch_attempt env k (world k) = Inl e)
    \<longrightarrow> fetch_option_chain_csv env max_retries world local_file
          = Inr (get_fallback_csv_data local_file))"
proof (intro conjI impI)
  assume "fetch_attempt (replies 0) = Inl ea \<and> fetch_attempt (replies 1) = Inl eb
      \<and> fetch_attempt (replies 2) = Inl ec"
  then show "fetch_option_chain replies symb = Inr (get_fallback_data symb)"
    using fetch_loop_exhausted by blast
next
  assume "0 < max_retries \<and> (\<forall>k<max_retries. \<exists>e. csv_fetch_attempt env k (world k) = Inl e)"
  then show "fetch_option_chain_csv env max_retries world local_file
          = Inr (get_fallback_csv_data local_file)"
    by (simp add: fetch_option_chain_csv_def fetch_csv_loop_exhausted)
qed

theorem fetch_exhausted_returns_fallback_witness:
  "fetch_attempt (rate_limited 0) = Inl ValueError
   \<and> fetch_attempt (rate_limited 1) = Inl HTTPError
   \<and> fetch_attempt (rate_limited 2) = Inl RequestException
   \<and> fetch_option_chain rate_limited ''BANKNIFTY'' = Inr (get_fallback_data ''BANKNIFTY'')
   \<and> csv_fetch_attempt host 0 (csv_down 0) = Inl RequestException
   \<and> csv_fetch_attempt host 1 (csv_down 1) = Inl RequestException
   \<and> csv_fetch_attempt host 2 (csv_down 2) = Inl RequestException
   \<and> fetch_option_chain_csv host 3 csv_down None = Inr (get_fallback_csv_data None)"
proof -
  have h0: "fetch_attempt (rate_limited 0) = Inl ValueError"
    by (simp add: fetch_attempt_def rate_limited_def py_strip_def is_space_def)
  have h1: "fetch_attempt (rate_limited 1) = Inl HTTPError"
    by (simp add: fetch_attempt_def rate_limited_def)
  have h2: "fetch_attempt (rate_limited 2) = Inl RequestException"
    by (simp add: fetch_attempt_def rate_limited_def)
  have c: "csv_fetch_attempt host k (csv_down k) = Inl RequestException" for k
    by (simp add: csv_fetch_attempt_def csv_down_def csv_endpoint_text_def json_endpoint_text_def)
  then have call: "(0::nat) < 3 \<and> (\<forall>k<3. \<exists>e. csv_fetch_attempt host k (csv_down k) = Inl e)"
    by simp
  note T = fetch_exhausted_returns_fallback[where replies=rate_limited and ea=ValueError
      and eb=HTTPError and ec=RequestException and symb="''BANKNIFTY''" and env=host
      and max_retries=3 and world=csv_down and local_file=None]
  note j = T[THEN conjunct1, THEN mp, OF conjI[OF h0 conjI[OF h1 h2]]]
  note v = T[THEN conjunct2, THEN mp, OF call]
  show ?thesis by (intro conjI) (rule h0 h1 h2 j c v)+
qed

text \<open>
  C2, as the specification has it, fails: with the upstream down on all three attempts,
  each attempt ends in RequestException, and the call returns a payload, not that error.
\<close>

theorem fetch_exhausted_no_error:
  "fetch_attempt (upstream_down 0) = Inl RequestException
   \<and> fetch_attempt (upstream_down 1) = Inl RequestException
   \<and> fetch_attempt (upstream_down 2) = Inl RequestException
   \<and> fetch_option_chain upstream_down ''NIFTY'' \<noteq> Inl RequestException
   \<and> isl (fetch_option_chain upstream_down ''NIFTY'') = False"
  by (simp add: fetch_option_chain_def fetch_loop.simps fetch_attempt_def upstream_down_def)

section \<open>Properties of the store\<close>

lemma insert_unordered_count_le: "fst (insert_unordered u ds xs) \<le> length xs"
proof (induction xs arbitrary: ds)
  case Nil
  show ?case by simp
next
  case (Cons d rest)
  show ?case
  proof (cases "u \<and> dedup_key d \<in> set (map dedup_key ds)")
    case True
    then have "fst (insert_unordered u ds (d # rest)) = fst (insert_unordered u ds rest)" by simp
    with Cons.IH[of ds] show ?thesis by simp
  next
    case False
    then have "fst (insert_unordered u ds (d # rest)) = Suc (fst (insert_unordered u (ds @ [d]) rest))"
      by (auto split: prod.splits)
    with Cons.IH[of "ds @ [d]"] show ?thesis by simp
  qed
qed

lemma insert_unordered_no_index:
  "insert_unordered False ds xs = (length xs, ds @ xs)"
  by (induction xs arbitrary: ds) auto

lemma bulk_insert_counts:
  assumes "bulk_insert_with_dedup c xs ty = (Inr s, c')"
  shows "inserted s + skipped s = length xs"
proof (cases "xs = []")
  case True
  with assms show ?thesis by (auto simp: bulk_insert_with_dedup_def)
next
  case False
  obtain r c1 where im: "insert_many c xs = (r, c1)" by (cases "insert_many c xs")
  show ?thesis
  proof (cases r)
    case (Inr n)
    with im False have "n = length xs"
      by (auto simp: insert_many_def Let_def split: if_splits prod.splits)
    with im Inr False assms show ?thesis by (auto simp: bulk_insert_with_dedup_def)
  next
    case (Inl e)
    show ?thesis
    proof (cases e)
      case (BulkWriteError n)
      with im Inl False have "n = fst (insert_unordered (dedup_index c) (docs c) xs)"
        by (auto simp: insert_many_def Let_def split: if_splits prod.splits)
      then have "n \<le> length xs" by (simp add: insert_unordered_count_le)
      with im Inl BulkWriteError False assms show ?thesis
        by (auto simp: bulk_insert_with_dedup_def)
    qed (use im Inl False assms in \<open>auto simp: bulk_insert_with_dedup_def\<close>)
  qed
qed

lemma bulk_insert_empty: "bulk_insert_with_dedup c [] ty = (Inr \<lparr>inserted = 0, skipped = 0\<rparr>, c)"
  by (simp add: bulk_insert_with_dedup_def)

lemma store_calls_counter:
  "store_option_data c call_options put_options = (Inr st, c') \<Longrightarrow>
     calls_inserted st + calls_skipped st = length call_options"
  by (auto simp: store_option_data_def Let_def split: if_splits prod.splits sum.splits
      dest: bulk_insert_counts)

lemma store_puts_counter:
  "store_option_data c call_options put_options = (Inr st, c') \<Longrightarrow>
     puts_inserted st + puts_skipped st = length put_options"
  by (auto simp: store_option_data_def Let_def split: if_splits prod.splits sum.splits
      dest: bulk_insert_counts)

text \<open>
  C10. Whenever \<^verbatim>\<open>store_option_data\<close> returns its counters, the calls inserted and the
  calls skipped add up to the number of call entries passed, and the puts inserted and
  the puts skipped to the number of put entries passed. With both lists empty it
  returns counters that are all zero and leaves the collection as it was, the pending
  outages included: no insert was issued.
\<close>

theorem store_counters_add_up:
  "(store_option_data c call_options put_options = (Inr st, c') \<longrightarrow>
      calls_inserted st + calls_skipped st = length call_options
      \<and> puts_inserted st + puts_skipped st = length put_options)
   \<and> store_option_data c [] [] =
       (Inr \<lparr>calls_inserted = 0, puts_inserted = 0, calls_skipped = 0, puts_skipped = 0,
             total_processed = 0\<rparr>, c)"
proof (intro conjI impI)
  assume a: "store_option_data c call_options put_options = (Inr st, c')"
  show "calls_inserted st + calls_skipped st = length call_options"
    using a by (rule store_calls_counter)
  show "puts_inserted st + puts_skipped st = length put_options"
    using a by (rule store_puts_counter)
next
  show "store_option_data c [] [] =
       (Inr \<lparr>calls_inserted = 0, puts_inserted = 0, calls_skipped = 0, puts_skipped = 0,
             total_processed = 0\<rparr>, c)"
    by (simp add: store_option_data_def)
qed

lemma insert_unordered_fresh:
  "distinct (map dedup_key xs) \<Longrightarrow> set (map dedup_key xs) \<inter> set (map dedup_key ds) = {}
     \<Longrightarrow> insert_unordered u ds xs = (length xs, ds @ xs)"
proof (induction xs arbitrary: ds)
  case Nil
  show ?case by simp
next
  case (Cons d rest)
  from Cons.prems have a: "dedup_key d \<notin> set (map dedup_key ds)" by auto
  from Cons.prems have b: "distinct (map dedup_key rest)" by simp
  from Cons.prems have c: "set (map dedup_key rest) \<inter> set (map dedup_key (ds @ [d])) = {}" by auto
  from Cons.IH[OF b c] a show ?case by simp
qed

lemma insert_unordered_known:
  "set (map dedup_key xs) \<subseteq> set (map dedup_key ds) \<Longrightarrow> insert_unordered True ds xs = (0, ds)"
  by (induction xs arbitrary: ds) auto

lemma no_outage_hd: "True \<notin> set os \<Longrightarrow> \<not> (os \<noteq> [] \<and> hd os)"
  by (cases os) auto

lemma no_outage_tl: "True \<notin> set os \<Longrightarrow> True \<notin> set (tl os)"
  by (cases os) auto

lemma bulk_insert_fresh:
  assumes "xs \<noteq> []" and "True \<notin> set (outages c)"
    and "distinct (map dedup_key xs)"
    and "set (map dedup_key xs) \<inter> set (map dedup_key (docs c)) = {}"
  shows "bulk_insert_with_dedup c xs ty =
           (Inr \<lparr>inserted = length xs, skipped = 0\<rparr>,
            c\<lparr>docs := docs c @ xs, outages := tl (outages c)\<rparr>)"
  using assms no_outage_hd[OF assms(2)]
  by (simp add: bulk_insert_with_dedup_def insert_many_def insert_unordered_fresh)

lemma bulk_insert_known:
  assumes "xs \<noteq> []" and "True \<notin> set (outages c)" and "dedup_index c"
    and "set (map dedup_key xs) \<subseteq> set (map dedup_key (docs c))"
  shows "bulk_insert_with_dedup c xs ty =
           (Inr \<lparr>inserted = 0, skipped = length xs\<rparr>, c\<lparr>outages := tl (outages c)\<rparr>)"
  using assms no_outage_hd[OF assms(2)]
  by (simp add: bulk_insert_with_dedup_def insert_many_def insert_unordered_known)

lemma store_fresh:
  assumes "True \<notin> set (outages c)"
    and "distinct (map dedup_key (call_options @ put_options))"
    and "set (map dedup_key (call_options @ put_options)) \<inter> set (map dedup_key (docs c)) = {}"
  shows "\<exists>c1. store_option_data c call_options put_options =
           (Inr \<lparr>calls_inserted = length call_options, puts_inserted = length put_options,
                 calls_skipped = 0, puts_skipped = 0,
                 total_processed = length call_options + length put_options\<rparr>, c1)
         \<and> docs c1 = docs c @ call_options @ put_options
         \<and> dedup_index c1 = dedup_index c \<and> True \<notin> set (outages c1)"
proof -
  define c1 where "c1 = (if call_options = [] then c
                         else c\<lparr>docs := docs c @ call_options, outages := tl (outages c)\<rparr>)"
  define c2 where "c2 = (if put_options = [] then c1
                         else c1\<lparr>docs := docs c1 @ put_options, outages := tl (outages c1)\<rparr>)"
  have o1: "True \<notin> set (outages c1)"
    using assms(1) no_outage_tl[OF assms(1)] by (simp add: c1_def)
  have d1: "docs c1 = docs c @ call_options" by (simp add: c1_def)
  have k1: "call_options \<noteq> [] \<Longrightarrow> bulk_insert_with_dedup c call_options ''CALL'' =
           (Inr \<lparr>inserted = length call_options, skipped = 0\<rparr>, c1)"
    using bulk_insert_fresh[of call_options c "''CALL''"] assms by (auto simp: c1_def)
  have k2: "put_options \<noteq> [] \<Longrightarrow> bulk_insert_with_dedup c1 put_options ''PUT'' =
           (Inr \<lparr>inserted = length put_options, skipped = 0\<rparr>, c2)"
    using bulk_insert_fresh[of put_options c1 "''PUT''"] assms o1 d1 by (auto simp: c2_def)
  have "store_option_data c call_options put_options =
           (Inr \<lparr>calls_inserted = length call_options, puts_inserted = length put_options,
                 calls_skipped = 0, puts_skipped = 0,
                 total_processed = length call_options + length put_options\<rparr>, c2)"
    using k1 k2 by (cases "call_options = []"; cases "put_options = []")
      (simp_all add: store_option_data_def c1_def c2_def)
  moreover have "docs c2 = docs c @ call_options @ put_options"
    by (simp add: c2_def d1)
  moreover have "dedup_index c2 = dedup_index c" by (simp add: c2_def c1_def)
  moreover have "True \<notin> set (outages c2)"
    using o1 no_outage_tl[OF o1] by (simp add: c2_def)
  ultimately show ?thesis by blast
qed

lemma store_known:
  assumes "True \<notin> set (outages c)" and "dedup_index c"
    and "set (map dedup_key (call_options @ put_options)) \<subseteq> set (map dedup_key (docs c))"
  shows "\<exists>c2. store_option_data c call_options put_options =
           (Inr \<lparr>calls_inserted = 0, puts_inserted = 0,
                 calls_skipped = length call_options, puts_skipped = length put_options,
                 total_processed = length call_options + length put_options\<rparr>, c2)
         \<and> docs c2 = docs c"
proof -
  define c1 where "c1 = (if call_options = [] then c else c\<lparr>outages := tl (outages c)\<rparr>)"
  define c2 where "c2 = (if put_options = [] then c1 else c1\<lparr>outages := tl (outages c1)\<rparr>)"
  have o1: "True \<notin> set (outages c1)"
    using assms(1) no_outage_tl[OF assms(1)] by (simp add: c1_def)
  have d1: "docs c1 = docs c" "dedup_index c1" using assms(2) by (simp_all add: c1_def)
  have k1: "call_options \<noteq> [] \<Longrightarrow> bulk_insert_with_dedup c call_options ''CALL'' =
           (Inr \<lparr>inserted = 0, skipped = length call_options\<rparr>, c1)"
    using bulk_insert_known[of call_options c "''CALL''"] assms by (auto simp: c1_def)
  have k2: "put_options \<noteq> [] \<Longrightarrow> bulk_insert_with_dedup c1 put_options ''PUT'' =
           (Inr \<lparr>inserted = 0, skipped = length put_options\<rparr>, c2)"
    using bulk_insert_known[of put_options c1 "''PUT''"] assms o1 d1 by (auto simp: c2_def)
  have "store_option_data c call_options put_options =
           (Inr \<lparr>calls_inserted = 0, puts_inserted = 0,
                 calls_skipped = length call_options, puts_skipped = length put_options,
                 total_processed = length call_options + length put_options\<rparr>, c2)"
    using k1 k2 by (cases "call_options = []"; cases "put_options = []")
      (simp_all add: store_option_data_def c1_def c2_def)
  moreover have "docs c2 = docs c" by (simp add: c2_def d1)
  ultimately show ?thesis by blast
qed

text \<open>
  C1, as the code has it. On a collection that has the unique index and is reachable,
  take call and put entries whose keys \<^verbatim>\<open>(identifier, fetched_at)\<close> are pairwise
  different and none of which is the key of a stored document. The first
  \<^verbatim>\<open>store_option_data\<close> inserts every entry and skips none; the second one, with the
  same lists, inserts none and skips every entry, and returns its counters as the first
  did: the duplicate keys are counted, not raised. The second call leaves the documents
  of the collection as the first call left them.
\<close>

theorem store_twice:
  assumes "dedup_index c" and "True \<notin> set (outages c)"
    and "distinct (map dedup_key (call_options @ put_options))"
    and "set (map dedup_key (call_options @ put_options)) \<inter> set (map dedup_key (docs c)) = {}"
  shows "\<exists>c1 c2.
           store_option_data c call_options put_options =
             (Inr \<lparr>calls_inserted = length call_options, puts_inserted = length put_options,
                   calls_skipped = 0, puts_skipped = 0,
                   total_processed = length call_options + length put_options\<rparr>, c1)
         \<and> store_option_data c1 call_options put_options =
             (Inr \<lparr>calls_inserted = 0, puts_inserted = 0,
                   calls_skipped = length call_options, puts_skipped = length put_options,
                   total_processed = length call_options + length put_options\<rparr>, c2)
         \<and> docs c1 = docs c @ call_options @ put_options
         \<and> docs c2 = docs c1"
proof -
  from store_fresh[OF assms(2,3,4)] obtain c1 where
    s1: "store_option_data c call_options put_options =
           (Inr \<lparr>calls_inserted = length call_options, puts_inserted = length put_options,
                 calls_skipped = 0, puts_skipped = 0,
                 total_processed = length call_options + length put_options\<rparr>, c1)"
    and d1: "docs c1 = docs c @ call_options @ put_options"
    and i1: "dedup_index c1 = dedup_index c" and o1: "True \<notin> set (outages c1)"
    by blast
  have sub: "set (map dedup_key (call_options @ put_options)) \<subseteq> set (map dedup_key (docs c1))"
    by (auto simp: d1)
  from i1 assms(1) have i1': "dedup_index c1" by simp
  from store_known[OF o1 i1' sub] obtain c2 where
    s2: "store_option_data c1 call_options put_options =
             (Inr \<lparr>calls_inserted = 0, puts_inserted = 0,
                   calls_skipped = length call_options, puts_skipped = length put_options,
                   total_processed = length call_options + length put_options\<rparr>, c2)"
    and d2: "docs c2 = docs c1"
    by blast
  from s1 s2 d1 d2 show ?thesis by blast
qed

subsection \<open>The store on the examples\<close>

lemma fresh_store_eq: "fresh_store = \<lparr>docs = [], dedup_index = True, outages = []\<rparr>"
  by (simp add: fresh_store_def setup_indexes_def)

lemma repeated_calls_store:
  "store_option_data fresh_store repeated_calls [] =
     (Inr \<lparr>calls_inserted = 1, puts_inserted = 0, calls_skipped = 1, puts_skipped = 0,
           total_processed = 2\<rparr>,
      \<lparr>docs = [sample_entry CALL 25000 7], dedup_index = True, outages = []\<rparr>)"
  by (simp add: fresh_store_eq repeated_calls_def store_option_data_def bulk_insert_with_dedup_def
      insert_many_def dedup_key_def sample_entry_def)

theorem store_counters_add_up_witness:
  "\<exists>st c'. store_option_data fresh_store repeated_calls one_put = (Inr st, c')
     \<and> calls_inserted st + calls_skipped st = length repeated_calls
     \<and> puts_inserted st + puts_skipped st = length one_put"
proof -
  have "\<exists>st c'. store_option_data fresh_store repeated_calls one_put = (Inr st, c')"
    by (simp add: fresh_store_eq repeated_calls_def one_put_def store_option_data_def
      bulk_insert_with_dedup_def insert_many_def dedup_key_def sample_entry_def)
  then obtain st c' where
    e: "store_option_data fresh_store repeated_calls one_put = (Inr st, c')"
    by blast
  with store_counters_add_up[of fresh_store repeated_calls "one_put" st c']
  show ?thesis by blast
qed

theorem store_twice_witness:
  "dedup_index fresh_store \<and> True \<notin> set (outages fresh_store)
   \<and> distinct (map dedup_key (one_call @ one_put))
   \<and> set (map dedup_key (one_call @ one_put)) \<inter> set (map dedup_key (docs fresh_store)) = {}
   \<and> (\<exists>c1 c2.
         store_option_data fresh_store one_call one_put =
           (Inr \<lparr>calls_inserted = length one_call, puts_inserted = length one_put,
                 calls_skipped = 0, puts_skipped = 0,
                 total_processed = length one_call + length one_put\<rparr>, c1)
       \<and> store_option_data c1 one_call one_put =
           (Inr \<lparr>calls_inserted = 0, puts_inserted = 0,
                 calls_skipped = length one_call, puts_skipped = length one_put,
                 total_processed = length one_call + length one_put\<rparr>, c2)
       \<and> docs c1 = docs fresh_store @ one_call @ one_put
       \<and> docs c2 = docs c1)"
proof -
  have h1: "dedup_index fresh_store" by (simp add: fresh_store_eq)
  have h2: "True \<notin> set (outages fresh_store)" by (simp add: fresh_store_eq)
  have h3: "distinct (map dedup_key (one_call @ one_put))"
    by (simp add: one_call_def one_put_def dedup_key_def sample_entry_def)
  have h4: "set (map dedup_key (one_call @ one_put)) \<inter> set (map dedup_key (docs fresh_store)) = {}"
    by (simp add: fresh_store_eq)
  show ?thesis
    by (intro conjI) (rule h1 h2 h3 h4 store_twice[OF h1 h2 h3 h4])+
qed

text \<open>
  C1, as the specification has it, fails on a list that repeats a key: of two call
  entries for one contract and one \<^verbatim>\<open>fetched_at\<close>, neither of them stored before, the
  first call of \<^verbatim>\<open>store_option_data\<close> inserts one and skips one.
\<close>

theorem store_repeated_key:
  "dedup_key (sample_entry CALL 25000 7) \<notin> set (map dedup_key (docs fresh_store))
   \<and> length repeated_calls = 2
   \<and> fst (store_option_data fresh_store repeated_calls []) =
       Inr \<lparr>calls_inserted = 1, puts_inserted = 0, calls_skipped = 1, puts_skipped = 0,
            total_processed = 2\<rparr>"
  by (simp add: repeated_calls_store) (simp add: fresh_store_eq repeated_calls_def)

section \<open>Properties of the latest snapshot\<close>

lemma fold_max_Max: "fold max xs (a::nat) = Max (set (a # xs))"
  by (rule Max.set_eq_fold[symmetric])

lemma latest_time_eq:
  assumes "filter (\<lambda>d. symbol d = symb) ds = d # rest"
  shows "fold max (map fetched_at rest) (fetched_at d)
           = Max (fetched_at ` {x \<in> set ds. symbol x = symb})"
proof -
  have "set (d # rest) = {x \<in> set ds. symbol x = symb}"
    using assms[symmetric] by auto
  then have "set (fetched_at d # map fetched_at rest) = fetched_at ` {x \<in> set ds. symbol x = symb}"
    by (metis list.simps(9) set_map)
  then show ?thesis by (simp only: fold_max_Max)
qed

lemma sorted_cursor_limit: "sorted (map f xs) \<Longrightarrow> sorted (map f (cursor_limit n xs))"
  by (simp add: cursor_limit_def take_map[symmetric])

lemma mset_cursor_limit: "mset (cursor_limit n xs) \<subseteq># mset xs"
proof -
  have "mset (take n xs) \<subseteq># mset (take n xs @ drop n xs)"
    unfolding mset_append by (rule mset_subset_eq_add_left)
  then show ?thesis by (simp add: cursor_limit_def)
qed

lemma length_cursor_limit:
  "length (cursor_limit n xs) = (if n = 0 then length xs else min n (length xs))"
  by (simp add: cursor_limit_def min.commute)

lemma cursor_limit_all: "n = 0 \<or> length xs \<le> n \<Longrightarrow> cursor_limit n xs = xs"
  by (auto simp: cursor_limit_def)

lemma cursor_limit_first:
  assumes "sorted (map f xs)" and "e \<in> set (cursor_limit n xs)"
    and "d \<in># mset xs - mset (cursor_limit n xs)"
  shows "f e \<le> f d"
proof (cases "n = 0")
  case True
  with assms(3) show ?thesis by (simp add: cursor_limit_def)
next
  case False
  have split: "xs = take n xs @ drop n xs" by simp
  have "mset xs - mset (take n xs) = mset (drop n xs)"
    by (metis add_diff_cancel_left' append_take_drop_id mset_append)
  with assms(3) False have d: "d \<in> set (drop n xs)" by (simp add: cursor_limit_def)
  from assms(2) False have e: "e \<in> set (take n xs)" by (simp add: cursor_limit_def)
  have "sorted (map f (take n xs) @ map f (drop n xs))"
    using assms(1) by (metis append_take_drop_id map_append)
  then have "\<forall>x\<in>set (map f (take n xs)). \<forall>y\<in>set (map f (drop n xs)). x \<le> y"
    by (simp add: sorted_append)
  with d e show ?thesis by auto
qed


lemma find_latest_slice:
  "latest_slice c symb ty limit (find_latest c symb ty (latest_time c symb) limit)"
proof -
  let ?wanted = "find_docs c symb ty (latest_time c symb)"
  let ?sorted = "sort_key strike_price ?wanted"
  let ?out = "cursor_limit limit ?sorted"
  have s: "sorted (map strike_price ?sorted)" by simp
  have m: "mset ?sorted = mset ?wanted" by simp
  have 1: "sorted (map strike_price ?out)" using s by (rule sorted_cursor_limit)
  have 3: "mset ?out \<subseteq># mset ?wanted" using mset_cursor_limit[of limit ?sorted] by simp
  have 2: "\<forall>e\<in>set ?out. e \<in> set (docs c) \<and> symbol e = symb \<and> opt_type e = ty
             \<and> fetched_at e = latest_time c symb"
  proof
    fix e assume "e \<in> set ?out"
    then have "e \<in># mset ?out" by simp
    with 3 have "e \<in># mset ?wanted" by (meson mset_subset_eqD)
    then show "e \<in> set (docs c) \<and> symbol e = symb \<and> opt_type e = ty
             \<and> fetched_at e = latest_time c symb"
      by (simp add: find_docs_def)
  qed
  have 4: "length ?out = (if limit = 0 then length ?wanted else min limit (length ?wanted))"
    by (simp add: length_cursor_limit)
  have 5: "limit = 0 \<or> length ?wanted \<le> limit \<longrightarrow> mset ?out = mset ?wanted"
  proof
    assume "limit = 0 \<or> length ?wanted \<le> limit"
    then have "limit = 0 \<or> length ?sorted \<le> limit" by simp
    then have "?out = ?sorted" by (rule cursor_limit_all)
    then show "mset ?out = mset ?wanted" by simp
  qed
  have 6: "\<forall>e\<in>set ?out. \<forall>d\<in>#mset ?wanted - mset ?out. strike_price e \<le> strike_price d"
  proof (intro ballI)
    fix e d assume e: "e \<in> set ?out" and d: "d \<in># mset ?wanted - mset ?out"
    from d have "d \<in># mset ?sorted - mset ?out" by simp
    with s e show "strike_price e \<le> strike_price d" by (rule cursor_limit_first)
  qed
  show ?thesis
    unfolding latest_slice_def find_latest_def Let_def
    by (intro conjI) (rule 1 2 3 4 5 6)+
qed

lemma get_latest_option_data_eq:
  assumes "\<exists>d\<in>set (docs c). symbol d = symb"
  shows "get_latest_option_data c symb limit =
          (find_latest c symb CALL (latest_time c symb) limit,
           find_latest c symb PUT (latest_time c symb) limit)"
proof -
  from assms have "filter (\<lambda>d. symbol d = symb) (docs c) \<noteq> []"
    by (auto simp: filter_empty_conv)
  then obtain d rest where f: "filter (\<lambda>d. symbol d = symb) (docs c) = d # rest"
    by (cases "filter (\<lambda>d. symbol d = symb) (docs c)") auto
  have t: "fold max (map fetched_at rest) (fetched_at d) = latest_time c symb"
    unfolding latest_time_def using f by (rule latest_time_eq)
  show ?thesis
    by (simp add: get_latest_option_data_def f t Let_def)
qed

text \<open>
  C5, as the code has it. For a symbol with at least one stored record,
  \<^verbatim>\<open>get_latest_option_data\<close> returns the calls and the puts apart; each list is in
  ascending order of strike price and holds only records of the symbol whose
  \<^verbatim>\<open>fetched_at\<close> is the greatest one stored for it, so none that is older. Each list
  holds all such records of its type when their number is within \<open>limit\<close> (100 when
  the caller gives none) or \<open>limit\<close> is 0; otherwise it holds the \<open>limit\<close> of them
  with the lowest strike prices.
\<close>

theorem latest_snapshot:
  assumes "\<exists>d\<in>set (docs c). symbol d = symb"
  shows "latest_slice c symb CALL limit (fst (get_latest_option_data c symb limit))
       \<and> latest_slice c symb PUT limit (snd (get_latest_option_data c symb limit))"
  by (simp add: get_latest_option_data_eq[OF assms] find_latest_slice)

lemma big_store_symbol: "filter (\<lambda>d. symbol d = ''NIFTY'') (docs big_store) = docs big_store"
  by (simp add: big_store_def sample_entry_def)

lemma big_store_latest: "latest_time big_store ''NIFTY'' = 7"
proof -
  have "{d \<in> set (docs big_store). symbol d = ''NIFTY''} = set (docs big_store)"
    by (auto simp: big_store_def sample_entry_def)
  moreover have "fetched_at ` set (docs big_store) = insert 3 ((\<lambda>k. 7) ` {0..<101::nat})"
    by (simp add: big_store_def sample_entry_def image_image)
  ultimately show ?thesis by (simp add: latest_time_def)
qed

lemma big_store_wanted:
  "find_docs big_store ''NIFTY'' CALL 7 = map (\<lambda>k. sample_entry CALL k 7) [0..<101]"
  by (simp add: find_docs_def big_store_def sample_entry_def filter_map comp_def)

theorem latest_snapshot_witness:
  "(\<exists>d\<in>set (docs big_store). symbol d = ''NIFTY'')
   \<and> latest_slice big_store ''NIFTY'' CALL 100 (fst (get_latest_option_data big_store ''NIFTY'' 100))
   \<and> latest_slice big_store ''NIFTY'' PUT 100 (snd (get_latest_option_data big_store ''NIFTY'' 100))"
proof -
  have h: "\<exists>d\<in>set (docs big_store). symbol d = ''NIFTY''"
    by (simp add: big_store_def sample_entry_def)
  from latest_snapshot[OF h, of 100] h show ?thesis by simp
qed

text \<open>
  C5, as the specification has it, fails when a fetch stored more than 100 records of a
  type: of the 101 calls of the latest fetch, the query with the limit it has by default
  returns 100.
\<close>

theorem latest_snapshot_truncated:
  "length (find_docs big_store ''NIFTY'' CALL (latest_time big_store ''NIFTY'')) = 101
   \<and> length (fst (get_latest_option_data big_store ''NIFTY'' 100)) = 100"
proof -
  have h: "\<exists>d\<in>set (docs big_store). symbol d = ''NIFTY''"
    by (simp add: big_store_def sample_entry_def)
  have w: "length (find_docs big_store ''NIFTY'' CALL (latest_time big_store ''NIFTY'')) = 101"
    by (simp add: big_store_latest big_store_wanted)
  have "length (fst (get_latest_option_data big_store ''NIFTY'' 100))
          = min 100 (length (find_docs big_store ''NIFTY'' CALL (latest_time big_store ''NIFTY'')))"
    by (simp add: get_latest_option_data_eq[OF h] find_latest_def length_cursor_limit)
  with w show ?thesis by simp
qed

section \<open>Properties of the pipeline\<close>

lemma run_single_cycle_fetch_failed:
  "fetch_and_parse env (cycle_replies inp) symb (parse_clock inp) = Inl e \<Longrightarrow>
     run_single_cycle env inp symb p = (cycle_failed symb e, p)"
  by (simp add: run_single_cycle_def)

lemma run_single_cycle_store_failed:
  "fetch_and_parse env (cycle_replies inp) symb (parse_clock inp) = Inr (cs, ps) \<Longrightarrow>
   store_option_data (db p) cs ps = (Inl e, c') \<Longrightarrow>
     run_single_cycle env inp symb p = (cycle_failed symb e, p\<lparr>db := c'\<rparr>)"
  by (simp add: run_single_cycle_def)

lemma run_single_cycle_stored:
  "fetch_and_parse env (cycle_replies inp) symb (parse_clock inp) = Inr (cs, ps) \<Longrightarrow>
   store_option_data (db p) cs ps = (Inr st, c') \<Longrightarrow>
     run_single_cycle env inp symb p =
       (\<lparr> result_symbol = symb, success = True, error = None,
           calls_processed = Some (length cs), puts_processed = Some (length ps),
           storage = Some st \<rparr>,
        p\<lparr> db := c', stats := add_totals (stats p) st,
           last_successful_fetch := Some (store_clock inp) \<rparr>)"
  by (simp add: run_single_cycle_def)

lemma run_single_cycle_cases:
  obtains (fetch) e where "fetch_and_parse env (cycle_replies inp) symb (parse_clock inp) = Inl e"
  | (store) cs ps e c' where "fetch_and_parse env (cycle_replies inp) symb (parse_clock inp) = Inr (cs, ps)"
      and "store_option_data (db p) cs ps = (Inl e, c')"
  | (ok) cs ps st c' where "fetch_and_parse env (cycle_replies inp) symb (parse_clock inp) = Inr (cs, ps)"
      and "store_option_data (db p) cs ps = (Inr st, c')"
proof (cases "fetch_and_parse env (cycle_replies inp) symb (parse_clock inp)")
  case (Inl e)
  then show ?thesis by (rule fetch)
next
  case (Inr r)
  obtain cs ps where r: "r = (cs, ps)" by (cases r)
  obtain x c' where s: "store_option_data (db p) cs ps = (x, c')"
    by (cases "store_option_data (db p) cs ps")
  show ?thesis
  proof (cases x)
    case (Inl e)
    with Inr r s show ?thesis by (auto intro: store)
  next
    case (Inr st)
    with \<open>fetch_and_parse env (cycle_replies inp) symb (parse_clock inp) = Inr r\<close> r s
    show ?thesis by (auto intro: ok)
  qed
qed

lemma run_single_cycle_symbol:
  "result_symbol (fst (run_single_cycle env inp symb p)) = symb"
  by (cases rule: run_single_cycle_cases[where env=env and inp=inp and symb=symb and p=p])
     (simp_all add: run_single_cycle_fetch_failed run_single_cycle_store_failed
        run_single_cycle_stored cycle_failed_def)

lemma run_single_cycle_running:
  "running (snd (run_single_cycle env inp symb p)) = running p"
  by (cases rule: run_single_cycle_cases[where env=env and inp=inp and symb=symb and p=p])
     (simp_all add: run_single_cycle_fetch_failed run_single_cycle_store_failed
        run_single_cycle_stored)

lemma run_single_cycle_symbols:
  "symbols (snd (run_single_cycle env inp symb p)) = symbols p"
  by (cases rule: run_single_cycle_cases[where env=env and inp=inp and symb=symb and p=p])
     (simp_all add: run_single_cycle_fetch_failed run_single_cycle_store_failed
        run_single_cycle_stored)

lemma run_single_cycle_total_cycles:
  "total_cycles (snd (run_single_cycle env inp symb p)) = total_cycles p"
  by (cases rule: run_single_cycle_cases[where env=env and inp=inp and symb=symb and p=p])
     (simp_all add: run_single_cycle_fetch_failed run_single_cycle_store_failed
        run_single_cycle_stored)

lemma run_single_cycle_outcome:
  "(success (fst (run_single_cycle env inp symb p)) \<and> error (fst (run_single_cycle env inp symb p)) = None)
   \<or> (\<not> success (fst (run_single_cycle env inp symb p))
       \<and> (\<exists>e. error (fst (run_single_cycle env inp symb p)) = Some e))"
  by (cases rule: run_single_cycle_cases[where env=env and inp=inp and symb=symb and p=p])
     (simp_all add: run_single_cycle_fetch_failed run_single_cycle_store_failed
        run_single_cycle_stored cycle_failed_def)

lemma process_symbols_all:
  "running p \<Longrightarrow> (\<forall>i<length syms. \<not> signal (world (k + i))) \<Longrightarrow>
     map result_symbol (fst (process_symbols env world k syms p ok)) = syms
     \<and> running (fst (snd (process_symbols env world k syms p ok)))
     \<and> symbols (fst (snd (process_symbols env world k syms p ok))) = symbols p
     \<and> total_cycles (fst (snd (process_symbols env world k syms p ok))) = total_cycles p"
proof (induction syms arbitrary: p k ok)
  case Nil
  then show ?case by simp
next
  case (Cons s rest)
  let ?step = "run_single_cycle env (world k) s p"
  let ?p1 = "snd ?step"
  from Cons.prems(2) have nosig: "\<not> signal (world k)" by force
  from Cons.prems(2) have rest_sig: "\<forall>i<length rest. \<not> signal (world (Suc k + i))"
    by (metis Suc_less_eq add_Suc_right add_Suc length_Cons)
  have r1: "running ?p1" using Cons.prems(1) by (simp add: run_single_cycle_running)
  note IH = Cons.IH[OF r1 rest_sig, of "ok \<and> success (fst ?step)"]
  have unfold: "process_symbols env world k (s # rest) p ok =
      (fst ?step # fst (process_symbols env world (Suc k) rest ?p1 (ok \<and> success (fst ?step))),
       snd (process_symbols env world (Suc k) rest ?p1 (ok \<and> success (fst ?step))))"
    using Cons.prems(1) nosig by (simp add: case_prod_beta Let_def)
  show ?case
    using IH by (simp add: unfold run_single_cycle_symbol run_single_cycle_symbols
        run_single_cycle_total_cycles del: process_symbols.simps)
qed

lemma run_tick_continues:
  assumes "running p" and "\<forall>i<length (symbols p). \<not> signal (world i)"
  shows "running (snd (run_tick env world p))"
    and "symbols (snd (run_tick env world p)) = symbols p"
    and "total_cycles (snd (run_tick env world p)) = total_cycles p + 1"
    and "map result_symbol (fst (run_tick env world p)) = symbols p"
proof -
  let ?p0 = "p\<lparr>total_cycles := total_cycles p + 1\<rparr>"
  have a: "running ?p0" using assms(1) by simp
  have b: "\<forall>i<length (symbols ?p0). \<not> signal (world (0 + i))" using assms(2) by simp
  note P = process_symbols_all[OF a b, of env True]
  show "running (snd (run_tick env world p))"
    using P by (simp add: run_tick_def Let_def case_prod_beta)
  show "symbols (snd (run_tick env world p)) = symbols p"
    using P by (simp add: run_tick_def Let_def case_prod_beta)
  show "total_cycles (snd (run_tick env world p)) = total_cycles p + 1"
    using P by (simp add: run_tick_def Let_def case_prod_beta)
  show "map result_symbol (fst (run_tick env world p)) = symbols p"
    using P by (simp add: run_tick_def Let_def case_prod_beta)
qed

lemma run_passes_continue:
  "running p \<Longrightarrow> (\<forall>w\<in>set worlds. \<forall>i<length (symbols p). \<not> signal (w i)) \<Longrightarrow>
     running (run_passes env worlds p)
     \<and> total_cycles (run_passes env worlds p) = total_cycles p + length worlds"
proof (induction worlds arbitrary: p)
  case Nil
  then show ?case by simp
next
  case (Cons w ws)
  from Cons.prems have s: "\<forall>i<length (symbols p). \<not> signal (w i)" by simp
  note T = run_tick_continues[OF Cons.prems(1) s, of env]
  have "\<forall>v\<in>set ws. \<forall>i<length (symbols (snd (run_tick env w p))). \<not> signal (v i)"
    using Cons.prems(2) by (simp add: T(2))
  from Cons.IH[OF T(1) this] T(3) Cons.prems(1) show ?case by simp
qed

lemma process_two_symbols:
  assumes "running p" and "\<not> signal (world k)"
  shows "fst (process_symbols env world k [a, b] p ok) =
           [fst (run_single_cycle env (world k) a p),
            fst (run_single_cycle env (world (Suc k)) b (snd (run_single_cycle env (world k) a p)))]"
  using assms by (simp add: case_prod_beta Let_def run_single_cycle_running)

lemma run_single_cycle_timestamp:
  "last_successful_fetch (snd (run_single_cycle env inp symb p)) =
     (if success (fst (run_single_cycle env inp symb p)) then Some (store_clock inp)
      else last_successful_fetch p)"
  by (cases rule: run_single_cycle_cases[where env=env and inp=inp and symb=symb and p=p])
     (simp_all add: run_single_cycle_fetch_failed run_single_cycle_store_failed
        run_single_cycle_stored cycle_failed_def)

lemma process_symbols_timestamp:
  "last_successful_fetch (fst (snd (process_symbols env world k syms p ok))) \<noteq> last_successful_fetch p
     \<Longrightarrow> \<exists>r\<in>set (fst (process_symbols env world k syms p ok)). success r"
proof (induction syms arbitrary: p k ok)
  case Nil
  then show ?case by simp
next
  case (Cons s rest)
  show ?case
  proof (cases "running p")
    case False
    with Cons.prems show ?thesis by simp
  next
    case True
    let ?step = "run_single_cycle env (world k) s p"
    let ?p2 = "if signal (world k) then (snd ?step)\<lparr>running := False\<rparr> else snd ?step"
    let ?rest = "process_symbols env world (Suc k) rest ?p2 (ok \<and> success (fst ?step))"
    have unfold: "process_symbols env world k (s # rest) p ok = (fst ?step # fst ?rest, snd ?rest)"
      using True by (simp add: case_prod_beta Let_def)
    show ?thesis
    proof (cases "success (fst ?step)")
      case True
      then show ?thesis by (simp add: unfold del: process_symbols.simps)
    next
      case False
      then have "last_successful_fetch ?p2 = last_successful_fetch p"
        by (simp add: run_single_cycle_timestamp)
      with Cons.prems have "last_successful_fetch (fst (snd ?rest)) \<noteq> last_successful_fetch ?p2"
        by (simp add: unfold del: process_symbols.simps)
      from Cons.IH[OF this] show ?thesis by (simp add: unfold del: process_symbols.simps)
    qed
  qed
qed

lemma run_tick_timestamp:
  "last_successful_fetch (snd (run_tick env world p)) \<noteq> last_successful_fetch p
     \<Longrightarrow> \<exists>r\<in>set (fst (run_tick env world p)). success r"
  using process_symbols_timestamp[of env world 0 "symbols p" "p\<lparr>total_cycles := total_cycles p + 1\<rparr>" True]
  by (simp add: run_tick_def Let_def case_prod_beta split: if_splits)

lemma store_nothing:
  "store_option_data c [] [] =
     (Inr \<lparr>calls_inserted = 0, puts_inserted = 0, calls_skipped = 0, puts_skipped = 0,
           total_processed = 0\<rparr>, c)"
  by (simp add: store_option_data_def)

lemma bulk_insert_outcome:
  "xs \<noteq> [] \<Longrightarrow>
     (outages c \<noteq> [] \<and> hd (outages c) \<longrightarrow>
        bulk_insert_with_dedup c xs ty = (Inl ConnectionFailure, c\<lparr>outages := tl (outages c)\<rparr>))
     \<and> (\<not> (outages c \<noteq> [] \<and> hd (outages c)) \<longrightarrow>
        (\<exists>st c'. bulk_insert_with_dedup c xs ty = (Inr st, c') \<and> outages c' = tl (outages c)))"
  by (auto simp: bulk_insert_with_dedup_def insert_many_def Let_def split: prod.splits)

lemma take_outages:
  "True \<in> set (take (Suc n) os) \<longleftrightarrow> (os \<noteq> [] \<and> hd os) \<or> True \<in> set (take n (tl os))"
  by (cases os) auto

lemma store_returns_iff:
  "(\<exists>st c'. store_option_data c cs ps = (Inr st, c')) \<longleftrightarrow>
     True \<notin> set (take (inserts_issued cs ps) (outages c))"
proof (cases "cs = []")
  case True
  note cs = True
  show ?thesis
  proof (cases "ps = []")
    case True
    with cs show ?thesis by (simp add: store_nothing inserts_issued_def)
  next
    case False
    from bulk_insert_outcome[OF False, of c "''PUT''"] cs False show ?thesis
      by (auto simp: store_option_data_def inserts_issued_def take_outages[of 0, simplified])
  qed
next
  case False
  note cs = False
  show ?thesis
  proof (cases "outages c \<noteq> [] \<and> hd (outages c)")
    case True
    with bulk_insert_outcome[OF cs, of c "''CALL''"] cs show ?thesis
      by (auto simp: store_option_data_def inserts_issued_def take_outages)
  next
    case False
    with bulk_insert_outcome[OF cs, of c "''CALL''"] obtain st c1 where
      b: "bulk_insert_with_dedup c cs ''CALL'' = (Inr st, c1)" and o: "outages c1 = tl (outages c)"
      by blast
    show ?thesis
    proof (cases "ps = []")
      case True
      with cs b False show ?thesis
        by (auto simp: store_option_data_def inserts_issued_def take_outages[of 0, simplified])
    next
      case False
      note ps = False
      from bulk_insert_outcome[OF ps, of c1 "''PUT''"] cs ps b o \<open>\<not> (outages c \<noteq> [] \<and> hd (outages c))\<close>
      show ?thesis
        by (auto simp: store_option_data_def inserts_issued_def take_outages take_outages[of 0, simplified])
    qed
  qed
qed

lemma cycle_timestamp_kept:
  assumes "fetch_and_parse env (cycle_replies inp) symb (parse_clock inp) = Inr (cs, ps)"
    and "True \<in> set (take (inserts_issued cs ps) (outages (db p)))"
  shows "last_successful_fetch (snd (run_single_cycle env inp symb p)) = last_successful_fetch p"
proof -
  from assms(2) store_returns_iff[of "db p" cs ps]
  have "\<not> (\<exists>st c'. store_option_data (db p) cs ps = (Inr st, c'))" by simp
  then obtain e c' where "store_option_data (db p) cs ps = (Inl e, c')"
    by (cases "store_option_data (db p) cs ps"; cases "fst (store_option_data (db p) cs ps)") auto
  with assms(1) show ?thesis by (simp add: run_single_cycle_store_failed)
qed

lemma cycle_timestamp_set:
  assumes "fetch_and_parse env (cycle_replies inp) symb (parse_clock inp) = Inr (cs, ps)"
    and "True \<notin> set (take (inserts_issued cs ps) (outages (db p)))"
  shows "last_successful_fetch (snd (run_single_cycle env inp symb p)) = Some (store_clock inp)"
proof -
  from assms(2) store_returns_iff[of "db p" cs ps]
  obtain st c' where "store_option_data (db p) cs ps = (Inr st, c')" by blast
  with assms(1) show ?thesis by (simp add: run_single_cycle_stored)
qed

lemma cycle_without_entries:
  assumes "fetch_and_parse env (cycle_replies inp) symb (parse_clock inp) = Inr ([], [])"
  shows "last_successful_fetch (snd (run_single_cycle env inp symb p)) = Some (store_clock inp)"
    and "db (snd (run_single_cycle env inp symb p)) = db p"
  using assms by (simp_all add: run_single_cycle_stored[OF _ store_nothing])

text \<open>
  C8, as the code has it. A cycle sets \<^verbatim>\<open>last_successful_fetch\<close>, to the time read after
  the store, exactly when nothing in it raised: the fetch and parse step returned its
  entries, and none of the inserts the store issues for them, one for each list that is
  not empty, found the server unreachable. A cycle in which the parse raised, or one of
  those inserts did, leaves the timestamp as it was. A cycle that parsed no entry sets
  it as well, though its store issued no insert and left the collection as it was. A
  pass of the loop over the symbols changes the timestamp only if one of its cycles
  succeeded.
\<close>

theorem last_successful_fetch_follows_store:
  "(fetch_and_parse env (cycle_replies inp) symb (parse_clock inp) = Inl e \<longrightarrow>
      last_successful_fetch (snd (run_single_cycle env inp symb p)) = last_successful_fetch p)
   \<and> (fetch_and_parse env (cycle_replies inp) symb (parse_clock inp) = Inr (cs, ps)
        \<and> True \<in> set (take (inserts_issued cs ps) (outages (db p))) \<longrightarrow>
      last_successful_fetch (snd (run_single_cycle env inp symb p)) = last_successful_fetch p)
   \<and> (fetch_and_parse env (cycle_replies inp) symb (parse_clock inp) = Inr (cs, ps)
        \<and> True \<notin> set (take (inserts_issued cs ps) (outages (db p))) \<longrightarrow>
      last_successful_fetch (snd (run_single_cycle env inp symb p)) = Some (store_clock inp))
   \<and> (fetch_and_parse env (cycle_replies inp) symb (parse_clock inp) = Inr ([], []) \<longrightarrow>
      last_successful_fetch (snd (run_single_cycle env inp symb p)) = Some (store_clock inp)
      \<and> db (snd (run_single_cycle env inp symb p)) = db p)
   \<and> (last_successful_fetch (snd (run_tick env world p)) \<noteq> last_successful_fetch p \<longrightarrow>
      (\<exists>r\<in>set (fst (run_tick env world p)). success r))"
proof (intro conjI impI)
  assume "fetch_and_parse env (cycle_replies inp) symb (parse_clock inp) = Inl e"
  then show "last_successful_fetch (snd (run_single_cycle env inp symb p)) = last_successful_fetch p"
    by (simp add: run_single_cycle_fetch_failed)
next
  assume "fetch_and_parse env (cycle_replies inp) symb (parse_clock inp) = Inr (cs, ps)
        \<and> True \<in> set (take (inserts_issued cs ps) (outages (db p)))"
  then show "last_successful_fetch (snd (run_single_cycle env inp symb p)) = last_successful_fetch p"
    using cycle_timestamp_kept by blast
next
  assume "fetch_and_parse env (cycle_replies inp) symb (parse_clock inp) = Inr (cs, ps)
        \<and> True \<notin> set (take (inserts_issued cs ps) (outages (db p)))"
  then show "last_successful_fetch (snd (run_single_cycle env inp symb p)) = Some (store_clock inp)"
    using cycle_timestamp_set by blast
next
  assume a: "fetch_and_parse env (cycle_replies inp) symb (parse_clock inp) = Inr ([], [])"
  show "last_successful_fetch (snd (run_single_cycle env inp symb p)) = Some (store_clock inp)"
    by (rule cycle_without_entries(1)[OF a])
  show "db (snd (run_single_cycle env inp symb p)) = db p"
    by (rule cycle_without_entries(2)[OF a])
next
  assume "last_successful_fetch (snd (run_tick env world p)) \<noteq> last_successful_fetch p"
  then show "\<exists>r\<in>set (fst (run_tick env world p)). success r"
    by (rule run_tick_timestamp)
qed

lemma fallback_parse:
  "parse_option_chain env (get_fallback_data symb) symb now =
     Inr ([fallback_call symb now], [fallback_put symb now])"
  by (simp add: get_fallback_data_def parse_option_chain_def parse_record_def side_entry_def
      create_option_entry_def row_strike_def row_expiry_def str_of_int_25000 NSE_FIELD_MAPPING_def
      validated_fields_def field_value_def validate_prices_def validate_quantities_def
      validate_percentages_def small_int_converts Let_def fallback_call_def fallback_put_def)

lemma exhausted_fetch_and_parse:
  assumes "fetch_attempt (replies 0) = Inl ea" and "fetch_attempt (replies 1) = Inl eb"
    and "fetch_attempt (replies 2) = Inl ec"
  shows "fetch_and_parse env replies symb now = Inr ([fallback_call symb now], [fallback_put symb now])"
  using fetch_loop_exhausted[OF assms, of symb]
  by (simp add: fetch_and_parse_def fallback_parse)

text \<open>
  C6, as the code has it. An exception of the parser, or of the store, ends the cycle
  with a result whose \<^verbatim>\<open>success\<close> is false and whose \<^verbatim>\<open>error\<close> is that exception; the
  cycle returns to the loop. A failure of the fetch does not, since the fetcher always
  returns a payload: when its three attempts have failed it returns the fallback
  payload, the cycle parses and stores its two entries, and when that store returns the
  result has \<^verbatim>\<open>success\<close> true and no error. In a pass over two symbols with no shutdown signal, the cycle of
  the second is run on the pipeline the cycle of the first left, whatever its outcome
  was; in a pass over any symbols with no signal there is one result for each symbol,
  in order, and the loop is still running after it; and over any number of such passes
  the loop keeps running and counts each pass.
\<close>

theorem cycle_errors_stay_in_the_cycle:
  "(fetch_option_chain (cycle_replies inp) symb = Inr raw_data
        \<and> parse_option_chain env raw_data symb (parse_clock inp) = Inl e \<longrightarrow>
      run_single_cycle env inp symb p = (cycle_failed symb e, p))
   \<and> (fetch_and_parse env (cycle_replies inp) symb (parse_clock inp) = Inr (cs, ps)
        \<and> store_option_data (db p) cs ps = (Inl e, c') \<longrightarrow>
      run_single_cycle env inp symb p = (cycle_failed symb e, p\<lparr>db := c'\<rparr>))
   \<and> success (cycle_failed symb e) = False \<and> error (cycle_failed symb e) = Some e
   \<and> (fetch_attempt (cycle_replies inp 0) = Inl ea \<and> fetch_attempt (cycle_replies inp 1) = Inl eb
        \<and> fetch_attempt (cycle_replies inp 2) = Inl ec
        \<and> store_option_data (db p) [fallback_call symb (parse_clock inp)]
             [fallback_put symb (parse_clock inp)] = (Inr st, c') \<longrightarrow>
      run_single_cycle env inp symb p =
        (\<lparr> result_symbol = symb, success = True, error = None, calls_processed = Some 1,
            puts_processed = Some 1, storage = Some st \<rparr>,
         p\<lparr> db := c', stats := add_totals (stats p) st,
            last_successful_fetch := Some (store_clock inp) \<rparr>))
   \<and> (running p \<and> \<not> signal (world 0) \<longrightarrow>
        fst (process_symbols env world 0 [a, b] p True) =
          [fst (run_single_cycle env (world 0) a p),
           fst (run_single_cycle env (world (Suc 0)) b (snd (run_single_cycle env (world 0) a p)))])
   \<and> (running p \<and> (\<forall>i<length (symbols p). \<not> signal (world i)) \<longrightarrow>
        map result_symbol (fst (run_tick env world p)) = symbols p
        \<and> running (snd (run_tick env world p)))
   \<and> (running p \<and> (\<forall>w\<in>set worlds. \<forall>i<length (symbols p). \<not> signal (w i)) \<longrightarrow>
        running (run_passes env worlds p)
        \<and> total_cycles (run_passes env worlds p) = total_cycles p + length worlds)
   \<and> (\<exists>payload. fetch_option_chain (cycle_replies inp) symb = Inr payload)"
proof (intro conjI impI)
  show "\<exists>payload. fetch_option_chain (cycle_replies inp) symb = Inr payload"
    by (rule fetch_option_chain_never_raises)
next
  assume "fetch_option_chain (cycle_replies inp) symb = Inr raw_data
        \<and> parse_option_chain env raw_data symb (parse_clock inp) = Inl e"
  then have "fetch_and_parse env (cycle_replies inp) symb (parse_clock inp) = Inl e"
    by (simp add: fetch_and_parse_def)
  then show "run_single_cycle env inp symb p = (cycle_failed symb e, p)"
    by (rule run_single_cycle_fetch_failed)
next
  assume "fetch_and_parse env (cycle_replies inp) symb (parse_clock inp) = Inr (cs, ps)
        \<and> store_option_data (db p) cs ps = (Inl e, c')"
  then show "run_single_cycle env inp symb p = (cycle_failed symb e, p\<lparr>db := c'\<rparr>)"
    by (simp add: run_single_cycle_store_failed)
next
  show "success (cycle_failed symb e) = False" by (simp add: cycle_failed_def)
  show "error (cycle_failed symb e) = Some e" by (simp add: cycle_failed_def)
next
  assume a: "fetch_attempt (cycle_replies inp 0) = Inl ea \<and> fetch_attempt (cycle_replies inp 1) = Inl eb
        \<and> fetch_attempt (cycle_replies inp 2) = Inl ec
        \<and> store_option_data (db p) [fallback_call symb (parse_clock inp)]
             [fallback_put symb (parse_clock inp)] = (Inr st, c')"
  then have f: "fetch_and_parse env (cycle_replies inp) symb (parse_clock inp) =
      Inr ([fallback_call symb (parse_clock inp)], [fallback_put symb (parse_clock inp)])"
    using exhausted_fetch_and_parse by blast
  from a have s: "store_option_data (db p) [fallback_call symb (parse_clock inp)]
             [fallback_put symb (parse_clock inp)] = (Inr st, c')" by simp
  show "run_single_cycle env inp symb p =
        (\<lparr> result_symbol = symb, success = True, error = None, calls_processed = Some 1,
            puts_processed = Some 1, storage = Some st \<rparr>,
         p\<lparr> db := c', stats := add_totals (stats p) st,
            last_successful_fetch := Some (store_clock inp) \<rparr>)"
    by (simp add: run_single_cycle_stored[OF f s])
next
  assume "running p \<and> \<not> signal (world 0)"
  then show "fst (process_symbols env world 0 [a, b] p True) =
          [fst (run_single_cycle env (world 0) a p),
           fst (run_single_cycle env (world (Suc 0)) b (snd (run_single_cycle env (world 0) a p)))]"
    by (simp add: process_two_symbols del: process_symbols.simps)
next
  assume h: "running p \<and> (\<forall>i<length (symbols p). \<not> signal (world i))"
  then show "map result_symbol (fst (run_tick env world p)) = symbols p"
    by (simp add: run_tick_continues)
  from h show "running (snd (run_tick env world p))"
    by (simp add: run_tick_continues)
next
  assume h: "running p \<and> (\<forall>w\<in>set worlds. \<forall>i<length (symbols p). \<not> signal (w i))"
  then show "running (run_passes env worlds p)"
    by (simp add: run_passes_continue)
  from h show "total_cycles (run_passes env worlds p) = total_cycles p + length worlds"
    by (simp add: run_passes_continue)
qed

subsection \<open>The pipeline on the examples\<close>

lemma upstream_down_attempts: "fetch_attempt (upstream_down attempt) = Inl RequestException"
  by (simp add: fetch_attempt_def upstream_down_def)

lemma upstream_down_fetch: "fetch_option_chain upstream_down symb = Inr (get_fallback_data symb)"
  by (simp add: fetch_option_chain_def fetch_loop.simps fetch_attempt_def upstream_down_def)

lemma list_reply_fetch: "fetch_option_chain list_reply symb = Inr (JArr [JStr ''records''])"
  by (simp add: fetch_option_chain_def fetch_loop.simps fetch_attempt_def list_reply_def
      py_strip_def is_space_def)

lemma list_reply_parse:
  "parse_option_chain env (JArr [JStr ''records'']) symb now = Inl AttributeError"
  by (simp add: parse_option_chain_def)

lemma list_reply_cycle:
  "fetch_and_parse env list_reply symb now = Inl AttributeError"
  by (simp add: fetch_and_parse_def list_reply_fetch parse_option_chain_def)

lemma mixed_pass_1:
  "mixed_pass (Suc 0) = \<lparr> cycle_replies = upstream_down, parse_clock = 20, store_clock = 21, signal = False \<rparr>"
  "mixed_pass 0 = \<lparr> cycle_replies = list_reply, parse_clock = 10, store_clock = 11, signal = False \<rparr>"
  by (simp_all add: mixed_pass_def)

lemma upstream_down_cycle:
  "fetch_and_parse env upstream_down symb now = Inr ([fallback_call symb now], [fallback_put symb now])"
  by (simp add: fetch_and_parse_def upstream_down_fetch fallback_parse)

lemma no_rows_fetch_and_parse:
  "fetch_and_parse env (cycle_replies no_rows_cycle) symb (parse_clock no_rows_cycle) = Inr ([], [])"
  by (simp add: fetch_and_parse_def fetch_option_chain_def fetch_loop.simps fetch_attempt_def
      no_rows_cycle_def no_rows_payload_def py_strip_def is_space_def parse_option_chain_def)

lemma fallback_keys:
  "dedup_key (fallback_call symb now) \<noteq> dedup_key (fallback_put symb now)"
  by (simp add: dedup_key_def fallback_call_def fallback_put_def)

lemma fallback_stored:
  "store_option_data fresh_store [fallback_call symb now] [fallback_put symb now] =
     (Inr \<lparr>calls_inserted = 1, puts_inserted = 1, calls_skipped = 0, puts_skipped = 0,
           total_processed = 2\<rparr>,
      \<lparr>docs = [fallback_call symb now, fallback_put symb now], dedup_index = True, outages = []\<rparr>)"
  using fallback_keys[of symb now]
  by (simp add: fresh_store_eq store_option_data_def bulk_insert_with_dedup_def insert_many_def)

lemma tick_results:
  "map success (fst (run_tick host mixed_pass two_symbols)) = [False, True]"
  "last_successful_fetch (snd (run_tick host mixed_pass two_symbols)) = Some 21"
  by (simp_all add: run_tick_def two_symbols_def mixed_pass_1 run_single_cycle_def Let_def
      list_reply_cycle upstream_down_cycle cycle_failed_def fallback_stored)

lemma outage_store:
  "cs \<noteq> [] \<Longrightarrow> store_option_data (db unreachable_store) cs ps =
     (Inl ConnectionFailure, \<lparr>docs = [], dedup_index = True, outages = []\<rparr>)"
  by (simp add: unreachable_store_def two_symbols_def fresh_store_eq store_option_data_def
      bulk_insert_with_dedup_def insert_many_def)

theorem last_successful_fetch_follows_store_witness:
  "fetch_and_parse host (cycle_replies (mixed_pass 0)) ''NIFTY'' (parse_clock (mixed_pass 0))
     = Inl AttributeError
   \<and> last_successful_fetch (snd (run_single_cycle host (mixed_pass 0) ''NIFTY'' two_symbols))
       = last_successful_fetch two_symbols
   \<and> fetch_and_parse host (cycle_replies (mixed_pass (Suc 0))) ''NIFTY'' (parse_clock (mixed_pass (Suc 0)))
       = Inr ([fallback_call ''NIFTY'' 20], [fallback_put ''NIFTY'' 20])
   \<and> True \<in> set (take (inserts_issued [fallback_call ''NIFTY'' 20] [fallback_put ''NIFTY'' 20])
                   (outages (db unreachable_store)))
   \<and> last_successful_fetch (snd (run_single_cycle host (mixed_pass (Suc 0)) ''NIFTY'' unreachable_store))
       = last_successful_fetch unreachable_store
   \<and> True \<notin> set (take (inserts_issued [fallback_call ''NIFTY'' 20] [fallback_put ''NIFTY'' 20])
                   (outages (db two_symbols)))
   \<and> last_successful_fetch (snd (run_single_cycle host (mixed_pass (Suc 0)) ''NIFTY'' two_symbols))
       = Some (store_clock (mixed_pass (Suc 0)))
   \<and> fetch_and_parse host (cycle_replies no_rows_cycle) ''NIFTY'' (parse_clock no_rows_cycle)
       = Inr ([], [])
   \<and> last_successful_fetch (snd (run_single_cycle host no_rows_cycle ''NIFTY'' two_symbols))
       = Some (store_clock no_rows_cycle)
   \<and> db (snd (run_single_cycle host no_rows_cycle ''NIFTY'' two_symbols)) = db two_symbols
   \<and> last_successful_fetch (snd (run_tick host mixed_pass two_symbols))
       \<noteq> last_successful_fetch two_symbols
   \<and> (\<exists>r\<in>set (fst (run_tick host mixed_pass two_symbols)). success r)"
proof -
  have f0: "fetch_and_parse host (cycle_replies (mixed_pass 0)) ''NIFTY'' (parse_clock (mixed_pass 0))
     = Inl AttributeError"
    by (simp add: mixed_pass_1 list_reply_cycle)
  have f1: "fetch_and_parse host (cycle_replies (mixed_pass (Suc 0))) ''NIFTY'' (parse_clock (mixed_pass (Suc 0)))
       = Inr ([fallback_call ''NIFTY'' 20], [fallback_put ''NIFTY'' 20])"
    by (simp add: mixed_pass_1 upstream_down_cycle)
  have o1: "True \<in> set (take (inserts_issued [fallback_call ''NIFTY'' 20] [fallback_put ''NIFTY'' 20])
                   (outages (db unreachable_store)))"
    by (simp add: inserts_issued_def unreachable_store_def)
  have o2: "True \<notin> set (take (inserts_issued [fallback_call ''NIFTY'' 20] [fallback_put ''NIFTY'' 20])
                   (outages (db two_symbols)))"
    by (simp add: inserts_issued_def two_symbols_def fresh_store_eq)
  have f3: "fetch_and_parse host (cycle_replies no_rows_cycle) ''NIFTY'' (parse_clock no_rows_cycle)
       = Inr ([], [])"
    by (rule no_rows_fetch_and_parse)
  have t: "last_successful_fetch (snd (run_tick host mixed_pass two_symbols))
       \<noteq> last_successful_fetch two_symbols"
    by (simp add: tick_results(2)) (simp add: two_symbols_def)
  note A = last_successful_fetch_follows_store[where env=host and inp="mixed_pass 0"
      and symb="''NIFTY''" and p=two_symbols and e=AttributeError]
  note B = last_successful_fetch_follows_store[where env=host and inp="mixed_pass (Suc 0)"
      and symb="''NIFTY''" and p=unreachable_store
      and cs="[fallback_call ''NIFTY'' 20]" and ps="[fallback_put ''NIFTY'' 20]"]
  note C = last_successful_fetch_follows_store[where env=host and inp="mixed_pass (Suc 0)"
      and symb="''NIFTY''" and p=two_symbols
      and cs="[fallback_call ''NIFTY'' 20]" and ps="[fallback_put ''NIFTY'' 20]"]
  note D = last_successful_fetch_follows_store[where env=host and inp=no_rows_cycle
      and symb="''NIFTY''" and p=two_symbols and world=mixed_pass]
  note a1 = A[THEN conjunct1, THEN mp, OF f0]
  note b1 = B[THEN conjunct2, THEN conjunct1, THEN mp, OF conjI[OF f1 o1]]
  note c1 = C[THEN conjunct2, THEN conjunct2, THEN conjunct1, THEN mp, OF conjI[OF f1 o2]]
  note d1 = D[THEN conjunct2, THEN conjunct2, THEN conjunct2, THEN conjunct1, THEN mp, OF f3]
  note d2 = D[THEN conjunct2, THEN conjunct2, THEN conjunct2, THEN conjunct2, THEN mp, OF t]
  show ?thesis
    by (intro conjI) (rule f0 a1 f1 o1 b1 o2 c1 f3 d1[THEN conjunct1] d1[THEN conjunct2] t d2)+
qed

text \<open>
  C8, as the specification has it, fails on a cycle that stores nothing: the upstream
  answers with a payload that has no rows, the parser returns no entry, and the server
  of the store is unreachable. The store issues no insert and the collection stays as it
  was, empty; the timestamp, which was 5, is set to the time read after the store.
\<close>

theorem timestamp_set_without_a_store:
  "fetch_and_parse host (cycle_replies no_rows_cycle) ''NIFTY'' (parse_clock no_rows_cycle)
     = Inr ([], [])
   \<and> outages (db unreachable_store) = [True]
   \<and> docs (db unreachable_store) = []
   \<and> last_successful_fetch unreachable_store = Some 5
   \<and> last_successful_fetch (snd (run_single_cycle host no_rows_cycle ''NIFTY'' unreachable_store))
       = Some 31
   \<and> db (snd (run_single_cycle host no_rows_cycle ''NIFTY'' unreachable_store))
       = db unreachable_store"
proof -
  have c: "store_clock no_rows_cycle = 31" by (simp add: no_rows_cycle_def)
  show ?thesis
    using cycle_without_entries[OF no_rows_fetch_and_parse, of host "''NIFTY''" unreachable_store]
    by (simp add: no_rows_fetch_and_parse c)
       (simp add: unreachable_store_def two_symbols_def fresh_store_eq)
qed

theorem cycle_errors_stay_in_the_cycle_witness:
  "fetch_option_chain (cycle_replies (mixed_pass 0)) ''NIFTY'' = Inr (JArr [JStr ''records''])
   \<and> parse_option_chain host (JArr [JStr ''records'']) ''NIFTY'' (parse_clock (mixed_pass 0))
       = Inl AttributeError
   \<and> run_single_cycle host (mixed_pass 0) ''NIFTY'' two_symbols
       = (cycle_failed ''NIFTY'' AttributeError, two_symbols)
   \<and> (\<exists>cs ps c'.
         fetch_and_parse host (cycle_replies (mixed_pass (Suc 0))) ''NIFTY''
            (parse_clock (mixed_pass (Suc 0))) = Inr (cs, ps)
         \<and> store_option_data (db unreachable_store) cs ps = (Inl ConnectionFailure, c')
         \<and> run_single_cycle host (mixed_pass (Suc 0)) ''NIFTY'' unreachable_store
              = (cycle_failed ''NIFTY'' ConnectionFailure, unreachable_store\<lparr>db := c'\<rparr>))
   \<and> success (cycle_failed ''NIFTY'' AttributeError) = False
   \<and> error (cycle_failed ''NIFTY'' AttributeError) = Some AttributeError
   \<and> fetch_attempt (cycle_replies (mixed_pass (Suc 0)) 0) = Inl RequestException
   \<and> fetch_attempt (cycle_replies (mixed_pass (Suc 0)) 1) = Inl RequestException
   \<and> fetch_attempt (cycle_replies (mixed_pass (Suc 0)) 2) = Inl RequestException
   \<and> (\<exists>st c'.
         store_option_data (db two_symbols) [fallback_call ''BANKNIFTY'' (parse_clock (mixed_pass (Suc 0)))]
            [fallback_put ''BANKNIFTY'' (parse_clock (mixed_pass (Suc 0)))] = (Inr st, c')
         \<and> run_single_cycle host (mixed_pass (Suc 0)) ''BANKNIFTY'' two_symbols =
             (\<lparr> result_symbol = ''BANKNIFTY'', success = True, error = None,
                 calls_processed = Some 1, puts_processed = Some 1, storage = Some st \<rparr>,
              two_symbols\<lparr> db := c', stats := add_totals (stats two_symbols) st,
                 last_successful_fetch := Some (store_clock (mixed_pass (Suc 0))) \<rparr>))
   \<and> running two_symbols \<and> \<not> signal (mixed_pass 0) \<and> \<not> signal (mixed_pass (Suc 0))
   \<and> fst (process_symbols host mixed_pass 0 [''NIFTY'', ''BANKNIFTY''] two_symbols True) =
        [fst (run_single_cycle host (mixed_pass 0) ''NIFTY'' two_symbols),
         fst (run_single_cycle host (mixed_pass (Suc 0)) ''BANKNIFTY''
                (snd (run_single_cycle host (mixed_pass 0) ''NIFTY'' two_symbols)))]
   \<and> map result_symbol (fst (run_tick host mixed_pass two_symbols)) = symbols two_symbols
   \<and> map success (fst (run_tick host mixed_pass two_symbols)) = [False, True]
   \<and> running (snd (run_tick host mixed_pass two_symbols))
   \<and> running (run_passes host [mixed_pass, mixed_pass] two_symbols)
   \<and> total_cycles (run_passes host [mixed_pass, mixed_pass] two_symbols)
        = total_cycles two_symbols + length [mixed_pass, mixed_pass]"
proof -
  have f: "fetch_option_chain (cycle_replies (mixed_pass 0)) ''NIFTY'' = Inr (JArr [JStr ''records''])"
    by (simp add: mixed_pass_1 list_reply_fetch)
  have q: "parse_option_chain host (JArr [JStr ''records'']) ''NIFTY'' (parse_clock (mixed_pass 0))
       = Inl AttributeError"
    by (rule list_reply_parse)
  have r: "running two_symbols" by (simp add: two_symbols_def)
  have s0: "\<not> signal (mixed_pass 0)" and s1: "\<not> signal (mixed_pass (Suc 0))"
    by (simp_all add: mixed_pass_def)
  have sig: "\<forall>i<length (symbols two_symbols). \<not> signal (mixed_pass i)"
    by (simp add: mixed_pass_def)
  have sigs: "\<forall>w\<in>set [mixed_pass, mixed_pass]. \<forall>i<length (symbols two_symbols). \<not> signal (w i)"
    by (simp add: mixed_pass_def)
  have u0: "fetch_attempt (cycle_replies (mixed_pass (Suc 0)) 0) = Inl RequestException"
    and u1: "fetch_attempt (cycle_replies (mixed_pass (Suc 0)) 1) = Inl RequestException"
    and u2: "fetch_attempt (cycle_replies (mixed_pass (Suc 0)) 2) = Inl RequestException"
    by (simp_all add: mixed_pass_1 upstream_down_attempts)
  note T = cycle_errors_stay_in_the_cycle[where env=host and inp="mixed_pass 0"
      and symb="''NIFTY''" and p=two_symbols and e=AttributeError and world=mixed_pass
      and a="''NIFTY''" and b="''BANKNIFTY''" and worlds="[mixed_pass, mixed_pass]"
      and raw_data="JArr [JStr ''records'']"]
  note t1 = T[THEN conjunct1, THEN mp, OF conjI[OF f q]]
  note t3 = T[THEN conjunct2, THEN conjunct2, THEN conjunct1]
  note t4 = T[THEN conjunct2, THEN conjunct2, THEN conjunct2, THEN conjunct1]
  note t5 = T[THEN conjunct2, THEN conjunct2, THEN conjunct2, THEN conjunct2, THEN conjunct2,
      THEN conjunct1, THEN mp, OF conjI[OF r s0]]
  note t6 = T[THEN conjunct2, THEN conjunct2, THEN conjunct2, THEN conjunct2, THEN conjunct2,
      THEN conjunct2, THEN conjunct1, THEN mp, OF conjI[OF r sig]]
  note t7 = T[THEN conjunct2, THEN conjunct2, THEN conjunct2, THEN conjunct2, THEN conjunct2,
      THEN conjunct2, THEN conjunct2, THEN conjunct1, THEN mp, OF conjI[OF r sigs]]
  have g: "fetch_and_parse host (cycle_replies (mixed_pass (Suc 0))) ''NIFTY''
          (parse_clock (mixed_pass (Suc 0))) = Inr ([fallback_call ''NIFTY'' 20], [fallback_put ''NIFTY'' 20])"
    by (simp add: mixed_pass_1 upstream_down_cycle)
  have o: "store_option_data (db unreachable_store) [fallback_call ''NIFTY'' 20] [fallback_put ''NIFTY'' 20]
      = (Inl ConnectionFailure, \<lparr>docs = [], dedup_index = True, outages = []\<rparr>)"
    by (rule outage_store) simp
  note u = cycle_errors_stay_in_the_cycle[where env=host and inp="mixed_pass (Suc 0)"
      and symb="''NIFTY''" and p=unreachable_store and e=ConnectionFailure
      and cs="[fallback_call ''NIFTY'' 20]" and ps="[fallback_put ''NIFTY'' 20]"
      and c'="\<lparr>docs = [], dedup_index = True, outages = []\<rparr>",
      THEN conjunct2, THEN conjunct1, THEN mp, OF conjI[OF g o]]
  from g o u have second: "\<exists>cs ps c'.
         fetch_and_parse host (cycle_replies (mixed_pass (Suc 0))) ''NIFTY''
            (parse_clock (mixed_pass (Suc 0))) = Inr (cs, ps)
         \<and> store_option_data (db unreachable_store) cs ps = (Inl ConnectionFailure, c')
         \<and> run_single_cycle host (mixed_pass (Suc 0)) ''NIFTY'' unreachable_store
              = (cycle_failed ''NIFTY'' ConnectionFailure, unreachable_store\<lparr>db := c'\<rparr>)"
    by blast
  obtain st c' where
    k: "store_option_data (db two_symbols) [fallback_call ''BANKNIFTY'' (parse_clock (mixed_pass (Suc 0)))]
            [fallback_put ''BANKNIFTY'' (parse_clock (mixed_pass (Suc 0)))] = (Inr st, c')"
    by (simp add: two_symbols_def fallback_stored)
  note v = cycle_errors_stay_in_the_cycle[where env=host and inp="mixed_pass (Suc 0)"
      and symb="''BANKNIFTY''" and p=two_symbols and ea=RequestException and eb=RequestException
      and ec=RequestException and st=st and c'=c',
      THEN conjunct2, THEN conjunct2, THEN conjunct2, THEN conjunct2, THEN conjunct1, THEN mp,
      OF conjI[OF u0 conjI[OF u1 conjI[OF u2 k]]]]
  from k v have third: "\<exists>st c'.
         store_option_data (db two_symbols) [fallback_call ''BANKNIFTY'' (parse_clock (mixed_pass (Suc 0)))]
            [fallback_put ''BANKNIFTY'' (parse_clock (mixed_pass (Suc 0)))] = (Inr st, c')
         \<and> run_single_cycle host (mixed_pass (Suc 0)) ''BANKNIFTY'' two_symbols =
             (\<lparr> result_symbol = ''BANKNIFTY'', success = True, error = None,
                 calls_processed = Some 1, puts_processed = Some 1, storage = Some st \<rparr>,
              two_symbols\<lparr> db := c', stats := add_totals (stats two_symbols) st,
                 last_successful_fetch := Some (store_clock (mixed_pass (Suc 0))) \<rparr>)"
    by blast
  show ?thesis
    by (intro conjI)
       (rule f q t1 second t3 t4 u0 u1 u2 third r s0 s1 t5 t6[THEN conjunct1] tick_results(1)
          t6[THEN conjunct2] t7[THEN conjunct1] t7[THEN conjunct2])+
qed

text \<open>
  C6, as the specification has it, fails on an error of the fetch: the upstream gives no
  answer to any of the three attempts of the cycle, each attempt fails, and the result
  of the cycle has \<^verbatim>\<open>success\<close> true and no error; the two entries in the collection
  afterwards are those of the fallback payload.
\<close>

theorem failed_fetch_is_reported_as_success:
  "fetch_attempt (cycle_replies (mixed_pass (Suc 0)) 0) = Inl RequestException
   \<and> fetch_attempt (cycle_replies (mixed_pass (Suc 0)) 1) = Inl RequestException
   \<and> fetch_attempt (cycle_replies (mixed_pass (Suc 0)) 2) = Inl RequestException
   \<and> success (fst (run_single_cycle host (mixed_pass (Suc 0)) ''BANKNIFTY'' two_symbols))
   \<and> error (fst (run_single_cycle host (mixed_pass (Suc 0)) ''BANKNIFTY'' two_symbols)) = None
   \<and> docs (db (snd (run_single_cycle host (mixed_pass (Suc 0)) ''BANKNIFTY'' two_symbols)))
       = [fallback_call ''BANKNIFTY'' 20, fallback_put ''BANKNIFTY'' 20]"
  by (simp add: mixed_pass_1 upstream_down_attempts run_single_cycle_def upstream_down_cycle
      two_symbols_def fallback_stored)

section \<open>Properties of the normalisation\<close>

lemma unusable_validate:
  assumes "unusable env v"
  shows "validate_prices env v = Inr None" and "validate_quantities env v = Inr None"
    and "validate_percentages env v = Inr None"
  using assms
  by (cases v; auto simp: validate_prices_def validate_quantities_def validate_percentages_def)+

lemma map_of_map_fields_other:
  "mf \<notin> snd ` set mapping \<Longrightarrow> map_of (map_fields kv mapping) mf = None"
  by (induction kv mapping rule: map_fields.induct) (auto split: option.splits)

lemma map_of_map_fields:
  "distinct (map snd mapping) \<Longrightarrow> (nf, mf) \<in> set mapping \<Longrightarrow>
     map_of (map_fields kv mapping) mf =
       (case map_of kv nf of
          None \<Rightarrow> None
        | Some v \<Rightarrow> (if v \<noteq> JNull \<and> v \<noteq> JStr '''' \<and> v \<noteq> JStr ''-'' then Some v else None))"
proof (induction kv mapping rule: map_fields.induct)
  case (1 option_data)
  then show ?case by simp
next
  case (2 option_data nse_field model_field rest)
  show ?case
  proof (cases "(nf, mf) = (nse_field, model_field)")
    case True
    from "2.prems"(1) have "mf \<notin> snd ` set rest" using True by auto
    then have "map_of (map_fields option_data rest) mf = None"
      by (rule map_of_map_fields_other)
    with True show ?thesis by (auto split: option.splits)
  next
    case False
    with "2.prems" have in_rest: "(nf, mf) \<in> set rest" by auto
    with "2.prems"(1) have ne: "mf \<noteq> model_field" by (auto simp: rev_image_eqI)
    from "2.prems"(1) have d: "distinct (map snd rest)" by simp
    show ?thesis
      using "2.IH"(1)[OF _ d in_rest] "2.IH"(2)[OF _ _ d in_rest] "2.IH"(3)[OF _ _ d in_rest] ne
      by (auto split: option.splits)
  qed
qed

lemma field_value_unusable:
  assumes "distinct (map snd mapping)" and "(nf, mf) \<in> set mapping"
    and "map_of kv nf = None \<or> (\<exists>v. map_of kv nf = Some v \<and> unusable env v)"
  shows "field_value validate_prices env (map_fields kv mapping) mf = Inr None"
    and "field_value validate_quantities env (map_fields kv mapping) mf = Inr None"
    and "field_value validate_percentages env (map_fields kv mapping) mf = Inr None"
  using assms(3) unusable_validate
  by (auto simp: field_value_def map_of_map_fields[OF assms(1,2)])

lemma mapping_distinct: "distinct (map snd (NSE_FIELD_MAPPING ty))"
  by (simp add: NSE_FIELD_MAPPING_def)

lemma entry_fields:
  assumes "create_option_entry env (JObj kv) symb ty strike expiry underlying now = Some e"
  shows "open_interest e = projr (field_value validate_quantities env
           (map_fields kv (NSE_FIELD_MAPPING (option_type_value ty))) ''open_interest'')"
    and "change_in_oi e = projr (field_value validate_quantities env
           (map_fields kv (NSE_FIELD_MAPPING (option_type_value ty))) ''change_in_oi'')"
    and "pchange_in_oi e = projr (field_value validate_percentages env
           (map_fields kv (NSE_FIELD_MAPPING (option_type_value ty))) ''pchange_in_oi'')"
    and "last_price e = projr (field_value validate_prices env
           (map_fields kv (NSE_FIELD_MAPPING (option_type_value ty))) ''last_price'')"
    and "change e = projr (field_value validate_percentages env
           (map_fields kv (NSE_FIELD_MAPPING (option_type_value ty))) ''change'')"
    and "pchange e = projr (field_value validate_percentages env
           (map_fields kv (NSE_FIELD_MAPPING (option_type_value ty))) ''pchange'')"
    and "total_traded_volume e = projr (field_value validate_quantities env
           (map_fields kv (NSE_FIELD_MAPPING (option_type_value ty))) ''total_traded_volume'')"
    and "implied_volatility e = projr (field_value validate_percentages env
           (map_fields kv (NSE_FIELD_MAPPING (option_type_value ty))) ''implied_volatility'')"
    and "bid_qty e = projr (field_value validate_quantities env
           (map_fields kv (NSE_FIELD_MAPPING (option_type_value ty))) ''bid_qty'')"
    and "bid_price e = projr (field_value validate_prices env
           (map_fields kv (NSE_FIELD_MAPPING (option_type_value ty))) ''bid_price'')"
    and "ask_price e = projr (field_value validate_prices env
           (map_fields kv (NSE_FIELD_MAPPING (option_type_value ty))) ''ask_price'')"
    and "ask_qty e = projr (field_value validate_quantities env
           (map_fields kv (NSE_FIELD_MAPPING (option_type_value ty))) ''ask_qty'')"
  using assms
  by (auto simp: create_option_entry_def validated_fields_def Let_def
      split: sum.splits option.splits if_splits)

lemma entry_strike_expiry:
  assumes "create_option_entry env option_data symb ty strike expiry underlying now = Some e"
  shows "py_float env strike = Inr (strike_price e)"
    and "pydantic_str env expiry = Some (expiry_date e)"
    and "opt_type e = ty" and "symbol e = symb" and "fetched_at e = now"
  using assms
  by (auto simp: create_option_entry_def Let_def split: json.splits sum.splits option.splits if_splits)

lemma market_field_simps:
  "market_field ''open_interest'' e = open_interest e"
  "market_field ''change_in_oi'' e = change_in_oi e"
  "market_field ''pchange_in_oi'' e = pchange_in_oi e"
  "market_field ''last_price'' e = last_price e"
  "market_field ''change'' e = change e"
  "market_field ''pchange'' e = pchange e"
  "market_field ''total_traded_volume'' e = total_traded_volume e"
  "market_field ''implied_volatility'' e = implied_volatility e"
  "market_field ''bid_qty'' e = bid_qty e"
  "market_field ''bid_price'' e = bid_price e"
  "market_field ''ask_price'' e = ask_price e"
  "market_field ''ask_qty'' e = ask_qty e"
  by (simp_all add: market_field_def)

lemma market_field_absent:
  assumes c: "create_option_entry env (JObj kv) symb ty strike expiry underlying now = Some e"
    and m: "(nf, mf) \<in> set (NSE_FIELD_MAPPING (option_type_value ty))"
    and u: "map_of kv nf = None \<or> (\<exists>v. map_of kv nf = Some v \<and> unusable env v)"
  shows "market_field mf e = None"
proof -
  note fv = field_value_unusable[OF mapping_distinct m u]
  from m have "mf = ''open_interest'' \<or> mf = ''change_in_oi'' \<or> mf = ''pchange_in_oi''
      \<or> mf = ''last_price'' \<or> mf = ''change'' \<or> mf = ''pchange''
      \<or> mf = ''total_traded_volume'' \<or> mf = ''implied_volatility'' \<or> mf = ''bid_qty''
      \<or> mf = ''bid_price'' \<or> mf = ''ask_price'' \<or> mf = ''ask_qty''"
    by (auto simp: NSE_FIELD_MAPPING_def)
  then show ?thesis
  proof (elim disjE)
    assume "mf = ''open_interest''"
    with fv(2) show ?thesis by (simp add: market_field_simps entry_fields[OF c])
  next
    assume "mf = ''change_in_oi''"
    with fv(2) show ?thesis by (simp add: market_field_simps entry_fields[OF c])
  next
    assume "mf = ''pchange_in_oi''"
    with fv(3) show ?thesis by (simp add: market_field_simps entry_fields[OF c])
  next
    assume "mf = ''last_price''"
    with fv(1) show ?thesis by (simp add: market_field_simps entry_fields[OF c])
  next
    assume "mf = ''change''"
    with fv(3) show ?thesis by (simp add: market_field_simps entry_fields[OF c])
  next
    assume "mf = ''pchange''"
    with fv(3) show ?thesis by (simp add: market_field_simps entry_fields[OF c])
  next
    assume "mf = ''total_traded_volume''"
    with fv(2) show ?thesis by (simp add: market_field_simps entry_fields[OF c])
  next
    assume "mf = ''implied_volatility''"
    with fv(3) show ?thesis by (simp add: market_field_simps entry_fields[OF c])
  next
    assume "mf = ''bid_qty''"
    with fv(2) show ?thesis by (simp add: market_field_simps entry_fields[OF c])
  next
    assume "mf = ''bid_price''"
    with fv(1) show ?thesis by (simp add: market_field_simps entry_fields[OF c])
  next
    assume "mf = ''ask_price''"
    with fv(1) show ?thesis by (simp add: market_field_simps entry_fields[OF c])
  next
    assume "mf = ''ask_qty''"
    with fv(2) show ?thesis by (simp add: market_field_simps entry_fields[OF c])
  qed
qed

lemma map_of_dict_set: "map_of (dict_set k v d) k' = (if k' = k then Some v else map_of d k')"
  by (induction d) auto

lemma dict_set_nonempty: "dict_set k v d \<noteq> []"
  by (cases d) auto

lemma add_mapped_fields_nonempty: "doc \<noteq> [] \<Longrightarrow> add_mapped_fields env row mapping doc \<noteq> []"
  by (induction env row mapping doc rule: add_mapped_fields.induct)
     (auto simp: dict_set_nonempty split: option.splits)

lemma add_mapped_fields_other:
  "f \<notin> snd ` set mapping \<Longrightarrow> map_of (add_mapped_fields env row mapping doc) f = map_of doc f"
  by (induction env row mapping doc rule: add_mapped_fields.induct)
     (auto simp: map_of_dict_set split: option.splits)

lemma add_mapped_fields_at:
  "distinct (map snd mapping) \<Longrightarrow> (csv_col, f) \<in> set mapping \<Longrightarrow>
     map_of (add_mapped_fields env row mapping doc) f =
       (case map_of row csv_col of
          None \<Rightarrow> map_of doc f
        | Some c \<Rightarrow> (case convert_cell env c of None \<Rightarrow> map_of doc f | Some v \<Rightarrow> Some v))"
proof (induction env row mapping doc rule: add_mapped_fields.induct)
  case (1 env row doc)
  then show ?case by simp
next
  case (2 env row col doc_field rest doc)
  show ?case
  proof (cases "(csv_col, f) = (col, doc_field)")
    case True
    from "2.prems"(1) True have "f \<notin> snd ` set rest" by auto
    then have "map_of (add_mapped_fields env row rest d) f = map_of d f" for d
      by (rule add_mapped_fields_other)
    with True have o: "map_of (add_mapped_fields env row rest d) doc_field = map_of d doc_field" for d
      by simp
    from True show ?thesis by (auto simp: o map_of_dict_set split: option.splits)
  next
    case False
    with "2.prems" have in_rest: "(csv_col, f) \<in> set rest" by auto
    with "2.prems"(1) have ne: "f \<noteq> doc_field" by (auto simp: rev_image_eqI)
    from "2.prems"(1) have d: "distinct (map snd rest)" by simp
    show ?thesis
      using "2.IH"(1)[OF _ d in_rest] "2.IH"(2)[OF _ _ d in_rest] "2.IH"(3)[OF _ _ d in_rest] ne
      by (auto simp: map_of_dict_set split: option.splits)
  qed
qed

lemma add_mapped_fields_populated:
  "(csv_col, f) \<in> set mapping \<Longrightarrow> map_of row csv_col = Some c \<Longrightarrow> convert_cell env c = Some v
     \<Longrightarrow> add_mapped_fields env row mapping doc \<noteq> []"
proof (induction env row mapping doc rule: add_mapped_fields.induct)
  case (1 env row doc)
  then show ?case by simp
next
  case (2 env row col doc_field rest doc)
  show ?case
  proof (cases "(csv_col, f) = (col, doc_field)")
    case True
    with "2.prems" show ?thesis
      by (simp add: add_mapped_fields_nonempty dict_set_nonempty)
  next
    case False
    with "2.prems" have in_rest: "(csv_col, f) \<in> set rest" by auto
    show ?thesis
      using "2.IH"(1)[OF _ in_rest "2.prems"(2,3)] "2.IH"(2)[OF _ _ in_rest "2.prems"(2,3)]
        "2.IH"(3)[OF _ _ in_rest "2.prems"(2,3)]
      by (auto split: option.splits)
  qed
qed


lemma columns_distinct:
  "distinct (map snd call_columns)" "distinct (map snd put_columns)"
  by (simp_all add: call_columns_def put_columns_def)

lemma create_option_document_fields:
  "create_option_document env row mapping symb oty strike now = Some d \<Longrightarrow>
     doc_fields d = add_mapped_fields env row mapping []"
  by (auto simp: create_option_document_def Let_def split: if_splits)

lemma create_option_document_some:
  "add_mapped_fields env row mapping [] \<noteq> [] \<Longrightarrow>
     \<exists>d. create_option_document env row mapping symb oty strike now = Some d"
  by (simp add: create_option_document_def Let_def)

text \<open>
  C3, as the code has it. In an entry that \<^verbatim>\<open>_create_option_entry\<close> builds, a market
  field of the mapping is absent when its raw value is missing, \<^verbatim>\<open>None\<close>, the empty
  string, \<^verbatim>\<open>"-"\<close> or a string that \<^verbatim>\<open>float\<close> does not read: never zero, never an
  error, never the string. In a document that \<^verbatim>\<open>_create_option_document\<close> builds from
  a CSV row, the field is absent when the cell is missing, blank, the empty string or
  \<^verbatim>\<open>"-"\<close>; a cell that holds another string which, without its commas and double
  quotes, does not read as a float is stored, as that cleaned string.
\<close>

theorem absent_market_fields:
  "((nf, mf) \<in> set (NSE_FIELD_MAPPING (option_type_value ty))
      \<and> (map_of kv nf = None \<or> (\<exists>v. map_of kv nf = Some v \<and> unusable env v))
      \<and> create_option_entry env (JObj kv) symb ty strike expiry underlying now = Some e
    \<longrightarrow> market_field mf e = None)
   \<and> ((mapping = call_columns \<or> mapping = put_columns) \<and> (csv_col, doc_field) \<in> set mapping
      \<and> (map_of row csv_col = None \<or> map_of row csv_col = Some NaN
          \<or> map_of row csv_col = Some (Str '''') \<or> map_of row csv_col = Some (Str ''-''))
      \<and> create_option_document env row mapping symb oty strike' now = Some d
    \<longrightarrow> map_of (doc_fields d) doc_field = None)
   \<and> ((mapping = call_columns \<or> mapping = put_columns) \<and> (csv_col, doc_field) \<in> set mapping
      \<and> map_of row csv_col = Some (Str s) \<and> s \<noteq> '''' \<and> s \<noteq> ''-''
      \<and> float_of_str env (clean_value s) = None
    \<longrightarrow> (\<exists>d'. create_option_document env row mapping symb oty strike' now = Some d'
           \<and> map_of (doc_fields d') doc_field = Some (Str (clean_value s))))"
proof (intro conjI impI)
  assume "(nf, mf) \<in> set (NSE_FIELD_MAPPING (option_type_value ty))
      \<and> (map_of kv nf = None \<or> (\<exists>v. map_of kv nf = Some v \<and> unusable env v))
      \<and> create_option_entry env (JObj kv) symb ty strike expiry underlying now = Some e"
  then show "market_field mf e = None"
    using market_field_absent by blast
next
  assume a: "(mapping = call_columns \<or> mapping = put_columns) \<and> (csv_col, doc_field) \<in> set mapping
      \<and> (map_of row csv_col = None \<or> map_of row csv_col = Some NaN
          \<or> map_of row csv_col = Some (Str '''') \<or> map_of row csv_col = Some (Str ''-''))
      \<and> create_option_document env row mapping symb oty strike' now = Some d"
  then have dm: "distinct (map snd mapping)" using columns_distinct by auto
  from a have m: "(csv_col, doc_field) \<in> set mapping" by simp
  from a have cd: "create_option_document env row mapping symb oty strike' now = Some d"
    by simp
  note f = create_option_document_fields[OF cd]
  from a have "map_of row csv_col = None \<or> map_of row csv_col = Some NaN
          \<or> map_of row csv_col = Some (Str '''') \<or> map_of row csv_col = Some (Str ''-'')"
    by simp
  then show "map_of (doc_fields d) doc_field = None"
    by (auto simp: f add_mapped_fields_at[OF dm m] convert_cell_def)
next
  assume a: "(mapping = call_columns \<or> mapping = put_columns) \<and> (csv_col, doc_field) \<in> set mapping
      \<and> map_of row csv_col = Some (Str s) \<and> s \<noteq> '''' \<and> s \<noteq> ''-''
      \<and> float_of_str env (clean_value s) = None"
  then have dm: "distinct (map snd mapping)" using columns_distinct by auto
  from a have m: "(csv_col, doc_field) \<in> set mapping" by simp
  from a have c: "convert_cell env (Str s) = Some (Str (clean_value s))"
    by (simp add: convert_cell_def)
  from a have r: "map_of row csv_col = Some (Str s)" by simp
  have "add_mapped_fields env row mapping [] \<noteq> []"
    using m r c by (rule add_mapped_fields_populated)
  then obtain d' where d': "create_option_document env row mapping symb oty strike' now = Some d'"
    using create_option_document_some by blast
  have "map_of (doc_fields d') doc_field = Some (Str (clean_value s))"
    by (simp add: create_option_document_fields[OF d'] add_mapped_fields_at[OF dm m] r c)
  with d' show "\<exists>d'. create_option_document env row mapping symb oty strike' now = Some d'
           \<and> map_of (doc_fields d') doc_field = Some (Str (clean_value s))"
    by blast
qed

lemma host_float_word: "float_of_str host ''n/a'' = None" "float_of_str host ''abc'' = None"
  by (simp_all add: host_def decimal_of_str_def py_strip_def is_space_def unsigned_decimal_def
      digit_val_def)

lemma host_float_1250: "float_of_str host ''1250'' = Some 1250"
  by (simp add: host_def decimal_of_str_def py_strip_def is_space_def unsigned_decimal_def
      digit_val_def)

lemma clean_values: "clean_value ''abc'' = ''abc''" "clean_value ''1,250'' = ''1250''"
  by (simp_all add: clean_value_def)

lemma worded_row_document:
  "create_option_document host worded_row call_columns ''NIFTY'' ''CALL'' 25200 7 =
     Some \<lparr> doc_symbol = ''NIFTY'', doc_type = ''CALL'', doc_strike_price = 25200,
            doc_fetched_at = 7,
            doc_fields = [(''open_interest'', Str ''abc''), (''volume'', Num 1250)] \<rparr>"
  by (simp add: create_option_document_def worded_row_def call_columns_def convert_cell_def
      clean_values host_float_word host_float_1250)

lemma worded_row_cells: "list_all (\<lambda>(name, c). frame_cell c) worded_row"
  by (simp add: worded_row_def frame_cell_def read_csv_na_values_def)

text \<open>
  C3, as the specification has it, fails in the CSV parser. Every cell of the row is one
  that \<^verbatim>\<open>read_csv\<close> returns: its open interest is the word \<^verbatim>\<open>abc\<close>, which is none of
  the markers that are read as NaN. The word is no float, and the document stores that
  string as its open interest.
\<close>

theorem word_is_stored:
  "list_all (\<lambda>(name, c). frame_cell c) worded_row
   \<and> map_of worded_row ''OI'' = Some (Str ''abc'')
   \<and> ''abc'' \<notin> set read_csv_na_values
   \<and> float_of_str host ''abc'' = None
   \<and> create_option_document host worded_row call_columns ''NIFTY'' ''CALL'' 25200 7 =
       Some \<lparr> doc_symbol = ''NIFTY'', doc_type = ''CALL'', doc_strike_price = 25200,
              doc_fetched_at = 7,
              doc_fields = [(''open_interest'', Str ''abc''), (''volume'', Num 1250)] \<rparr>"
  by (simp add: worded_row_document host_float_word worded_row_cells)
     (simp add: worded_row_def read_csv_na_values_def)

lemma worded_side_entry:
  "\<exists>e. create_option_entry host (JObj worded_side) ''NIFTY'' CALL (JInt 25000)
          (JStr ''30-Jan-2025'') JNull 7 = Some e"
  by (simp add: create_option_entry_def validated_fields_def field_value_def worded_side_def
      NSE_FIELD_MAPPING_def validate_prices_def validate_quantities_def validate_percentages_def
      host_float_word small_int_converts Let_def)

theorem absent_market_fields_witness:
  "(''openInterest'', ''open_interest'') \<in> set (NSE_FIELD_MAPPING (option_type_value CALL))
   \<and> map_of worded_side ''openInterest'' = Some (JStr ''n/a'') \<and> unusable host (JStr ''n/a'')
   \<and> (\<exists>e. create_option_entry host (JObj worded_side) ''NIFTY'' CALL (JInt 25000)
             (JStr ''30-Jan-2025'') JNull 7 = Some e
          \<and> market_field ''open_interest'' e = None)
   \<and> (''LTP'', ''last_traded_price'') \<in> set call_columns
   \<and> map_of worded_row ''LTP'' = Some (Str ''-'')
   \<and> (\<exists>d. create_option_document host worded_row call_columns ''NIFTY'' ''CALL'' 25200 7 = Some d
          \<and> map_of (doc_fields d) ''last_traded_price'' = None)
   \<and> (''OI'', ''open_interest'') \<in> set call_columns
   \<and> map_of worded_row ''OI'' = Some (Str ''abc'')
   \<and> frame_cell (Str ''abc'')
   \<and> float_of_str host (clean_value ''abc'') = None
   \<and> (\<exists>d'. create_option_document host worded_row call_columns ''NIFTY'' ''CALL'' 25200 7 = Some d'
          \<and> map_of (doc_fields d') ''open_interest'' = Some (Str (clean_value ''abc'')))"
proof -
  have m1: "(''openInterest'', ''open_interest'') \<in> set (NSE_FIELD_MAPPING (option_type_value CALL))"
    by (simp add: NSE_FIELD_MAPPING_def)
  have r1: "map_of worded_side ''openInterest'' = Some (JStr ''n/a'')"
    by (simp add: worded_side_def)
  have u1: "unusable host (JStr ''n/a'')" by (simp add: host_float_word)
  obtain e where e: "create_option_entry host (JObj worded_side) ''NIFTY'' CALL (JInt 25000)
          (JStr ''30-Jan-2025'') JNull 7 = Some e"
    using worded_side_entry by blast
  have h1: "(''openInterest'', ''open_interest'') \<in> set (NSE_FIELD_MAPPING (option_type_value CALL))
      \<and> (map_of worded_side ''openInterest'' = None
          \<or> (\<exists>v. map_of worded_side ''openInterest'' = Some v \<and> unusable host v))
      \<and> create_option_entry host (JObj worded_side) ''NIFTY'' CALL (JInt 25000)
          (JStr ''30-Jan-2025'') JNull 7 = Some e"
    using m1 r1 u1 e by blast
  have m2: "(''LTP'', ''last_traded_price'') \<in> set call_columns" by (simp add: call_columns_def)
  have r2: "map_of worded_row ''LTP'' = Some (Str ''-'')" by (simp add: worded_row_def)
  obtain d where d: "create_option_document host worded_row call_columns ''NIFTY'' ''CALL'' 25200 7 = Some d"
    using worded_row_document by blast
  have h2: "(call_columns = call_columns \<or> call_columns = put_columns)
      \<and> (''LTP'', ''last_traded_price'') \<in> set call_columns
      \<and> (map_of worded_row ''LTP'' = None \<or> map_of worded_row ''LTP'' = Some NaN
          \<or> map_of worded_row ''LTP'' = Some (Str '''') \<or> map_of worded_row ''LTP'' = Some (Str ''-''))
      \<and> create_option_document host worded_row call_columns ''NIFTY'' ''CALL'' 25200 7 = Some d"
    using m2 r2 d by blast
  have m3: "(''OI'', ''open_interest'') \<in> set call_columns" by (simp add: call_columns_def)
  have r3: "map_of worded_row ''OI'' = Some (Str ''abc'')" by (simp add: worded_row_def)
  have f3: "float_of_str host (clean_value ''abc'') = None" by (simp add: clean_values host_float_word)
  have n3: "frame_cell (Str ''abc'')" by (simp add: frame_cell_def read_csv_na_values_def)
  have h3: "(call_columns = call_columns \<or> call_columns = put_columns)
      \<and> (''OI'', ''open_interest'') \<in> set call_columns
      \<and> map_of worded_row ''OI'' = Some (Str ''abc'') \<and> ''abc'' \<noteq> '''' \<and> ''abc'' \<noteq> ''-''
      \<and> float_of_str host (clean_value ''abc'') = None"
    using m3 r3 f3 by simp
  note T = absent_market_fields[where env=host and nf="''openInterest''" and mf="''open_interest''"
      and ty=CALL and kv=worded_side and symb="''NIFTY''" and strike="JInt 25000"
      and expiry="JStr ''30-Jan-2025''" and underlying=JNull and now=7 and e=e]
  note c1 = T[THEN conjunct1, THEN mp, OF h1]
  note c2 = absent_market_fields[where env=host and mapping=call_columns and csv_col="''LTP''"
      and doc_field="''last_traded_price''" and row=worded_row and symb="''NIFTY''"
      and oty="''CALL''" and strike'=25200 and now=7 and d=d,
      THEN conjunct2, THEN conjunct1, THEN mp, OF h2]
  note c3 = absent_market_fields[where env=host and mapping=call_columns and csv_col="''OI''"
      and doc_field="''open_interest''" and row=worded_row and symb="''NIFTY''"
      and oty="''CALL''" and strike'=25200 and now=7 and s="''abc''",
      THEN conjunct2, THEN conjunct2, THEN mp, OF h3]
  from e c1 have x1: "\<exists>e. create_option_entry host (JObj worded_side) ''NIFTY'' CALL (JInt 25000)
             (JStr ''30-Jan-2025'') JNull 7 = Some e \<and> market_field ''open_interest'' e = None"
    by blast
  from d c2 have x2: "\<exists>d. create_option_document host worded_row call_columns ''NIFTY'' ''CALL'' 25200 7 = Some d
          \<and> map_of (doc_fields d) ''last_traded_price'' = None"
    by blast
  show ?thesis
    by (intro conjI) (rule m1 r1 u1 x1 m2 r2 x2 m3 r3 n3 f3 c3)+
qed




















lemma side_entry_emits:
  assumes "e \<in> set (side_entry env kv symb ty strike expiry underlying now)"
  shows "py_float env strike = Inr (strike_price e) \<and> pydantic_str env expiry = Some (expiry_date e)"
  using assms entry_strike_expiry(1,2)
  by (fastforce simp: side_entry_def split: option.splits)

lemma parse_record_emits:
  assumes "parse_record env symb underlying now r = Inr (cs, ps)"
    and "e \<in> set cs \<union> set ps"
  shows "\<exists>kv. r = JObj kv \<and> py_truthy (row_strike kv)
           \<and> py_float env (row_strike kv) = Inr (strike_price e)
           \<and> pydantic_str env (row_expiry kv) = Some (expiry_date e)"
proof (cases r)
  case (JObj kv)
  show ?thesis
  proof (cases "py_truthy (row_strike kv)")
    case False
    with assms JObj show ?thesis by (simp add: parse_record_def Let_def)
  next
    case True
    with assms(1) JObj have
      "cs = side_entry env kv symb CALL (row_strike kv) (row_expiry kv) underlying now"
      "ps = side_entry env kv symb PUT (row_strike kv) (row_expiry kv) underlying now"
      by (simp_all add: parse_record_def Let_def)
    with assms(2) have "py_float env (row_strike kv) = Inr (strike_price e)
        \<and> pydantic_str env (row_expiry kv) = Some (expiry_date e)"
      using side_entry_emits by blast
    with True JObj show ?thesis by simp
  qed
qed (use assms in \<open>simp_all add: parse_record_def\<close>)

lemma parse_records_emits:
  "parse_records env symb underlying now rows = Inr (calls, puts) \<Longrightarrow> e \<in> set calls \<union> set puts
     \<Longrightarrow> \<exists>kv. JObj kv \<in> set rows \<and> py_truthy (row_strike kv)
           \<and> py_float env (row_strike kv) = Inr (strike_price e)
           \<and> pydantic_str env (row_expiry kv) = Some (expiry_date e)"
proof (induction rows arbitrary: calls puts)
  case Nil
  then show ?case by simp
next
  case (Cons r rs)
  from Cons.prems(1) obtain c p cs ps where
    r: "parse_record env symb underlying now r = Inr (c, p)"
    and rs: "parse_records env symb underlying now rs = Inr (cs, ps)"
    and cat: "calls = c @ cs" "puts = p @ ps"
    by (auto split: sum.splits prod.splits)
  from Cons.prems(2) cat have "e \<in> set c \<union> set p \<or> e \<in> set cs \<union> set ps" by auto
  then show ?case
  proof
    assume "e \<in> set c \<union> set p"
    from parse_record_emits[OF r this] show ?thesis by auto
  next
    assume "e \<in> set cs \<union> set ps"
    from Cons.IH[OF rs this] show ?thesis by auto
  qed
qed

lemma parse_option_chain_rows:
  assumes "parse_option_chain env raw_data symb now = Inr result"
  shows "\<exists>underlying. parse_records env symb underlying now (payload_rows raw_data) = Inr result"
  using assms
  by (auto simp: parse_option_chain_def payload_rows_def split: sum.splits)

lemma parse_record_skips:
  "\<not> py_truthy (row_strike kv) \<or> (\<exists>err. py_float env (row_strike kv) = Inl err) \<Longrightarrow>
     parse_record env symb underlying now (JObj kv) = Inr ([], [])"
  by (auto simp: parse_record_def Let_def side_entry_def create_option_entry_def
      split: option.splits json.splits)

lemma create_option_document_strike:
  "create_option_document env row mapping symb oty strike now = Some d \<Longrightarrow>
     doc_strike_price d = strike"
  by (auto simp: create_option_document_def Let_def split: if_splits)

lemma one_or_none_mem: "d \<in> set (one_or_none x) \<longleftrightarrow> x = Some d"
  by (cases x) (auto simp: one_or_none_def)

lemma transform_emits:
  "transform_to_documents env rows symb now = (call_docs, put_docs) \<Longrightarrow>
   d \<in> set call_docs \<union> set put_docs \<Longrightarrow>
     \<exists>row c. row \<in> set rows \<and> map_of row ''STRIKE'' = Some c
       \<and> strike_of_cell env c = Some (doc_strike_price d)"
proof (induction rows arbitrary: call_docs put_docs)
  case Nil
  then show ?case by simp
next
  case (Cons row rest)
  obtain cs ps where rec: "transform_to_documents env rest symb now = (cs, ps)"
    by (cases "transform_to_documents env rest symb now")
  show ?case
  proof (cases "map_of row ''STRIKE''")
    case None
    with Cons.prems rec have "d \<in> set cs \<union> set ps" by simp
    from Cons.IH[OF rec this] show ?thesis by auto
  next
    case (Some c)
    show ?thesis
    proof (cases "strike_of_cell env c")
      case None
      with Cons.prems rec Some have "d \<in> set cs \<union> set ps" by simp
      from Cons.IH[OF rec this] show ?thesis by auto
    next
      case (Some strike)
      with Cons.prems rec \<open>map_of row ''STRIKE'' = Some c\<close>
      have "create_option_document env row call_columns symb ''CALL'' strike now = Some d
          \<or> create_option_document env row put_columns symb ''PUT'' strike now = Some d
          \<or> d \<in> set cs \<union> set ps"
        by (auto simp: one_or_none_mem)
      then show ?thesis
      proof (elim disjE)
        assume "create_option_document env row call_columns symb ''CALL'' strike now = Some d"
        then have "doc_strike_price d = strike" by (rule create_option_document_strike)
        with Some \<open>map_of row ''STRIKE'' = Some c\<close> show ?thesis by auto
      next
        assume "create_option_document env row put_columns symb ''PUT'' strike now = Some d"
        then have "doc_strike_price d = strike" by (rule create_option_document_strike)
        with Some \<open>map_of row ''STRIKE'' = Some c\<close> show ?thesis by auto
      next
        assume "d \<in> set cs \<union> set ps"
        from Cons.IH[OF rec this] show ?thesis by auto
      qed
    qed
  qed
qed

lemma worded_row_transform:
  "transform_to_documents host [worded_row] ''NIFTY'' 7 = ([worded_document], [])"
proof -
  have s: "map_of worded_row ''STRIKE'' = Some (Num 25200)" by (simp add: worded_row_def)
  have p: "create_option_document host worded_row put_columns ''NIFTY'' ''PUT'' 25200 7 = None"
    by (simp add: create_option_document_def worded_row_def put_columns_def)
  show ?thesis
    by (simp add: s strike_of_cell_def worded_row_document p one_or_none_def worded_document_def)
qed

text \<open>
  C7, as the code has it. Every entry \<^verbatim>\<open>parse_option_chain\<close> returns comes from a row
  of the payload whose strike price is truthy and converts to a float, which is the
  strike price of the entry, and whose expiry date, the empty string when the row has
  none, passes the validation of a string and is the expiry date of the entry. A row
  whose strike price is missing, \<^verbatim>\<open>None\<close>, zero or empty, or does not convert to a
  float, gives no entry. Every document of the CSV parser comes from a row whose STRIKE
  cell is a number, or a string that is one without its commas, which is the strike
  price of the document. The sign of the strike price is not looked at.
\<close>

theorem emitted_strike_and_expiry:
  "(parse_option_chain env raw_data symb now = Inr (calls, puts) \<and> e \<in> set calls \<union> set puts \<longrightarrow>
      (\<exists>kv. JObj kv \<in> set (payload_rows raw_data) \<and> py_truthy (row_strike kv)
            \<and> py_float env (row_strike kv) = Inr (strike_price e)
            \<and> pydantic_str env (row_expiry kv) = Some (expiry_date e)))
   \<and> (\<not> py_truthy (row_strike kv') \<or> (\<exists>err. py_float env (row_strike kv') = Inl err) \<longrightarrow>
        parse_record env symb underlying now (JObj kv') = Inr ([], []))
   \<and> (transform_to_documents env rows symb now = (call_docs, put_docs)
        \<and> d \<in> set call_docs \<union> set put_docs \<longrightarrow>
        (\<exists>row c. row \<in> set rows \<and> map_of row ''STRIKE'' = Some c
            \<and> strike_of_cell env c = Some (doc_strike_price d)))"
proof (intro conjI impI)
  assume a: "parse_option_chain env raw_data symb now = Inr (calls, puts) \<and> e \<in> set calls \<union> set puts"
  then obtain u where "parse_records env symb u now (payload_rows raw_data) = Inr (calls, puts)"
    using parse_option_chain_rows by blast
  from parse_records_emits[OF this] a
  show "\<exists>kv. JObj kv \<in> set (payload_rows raw_data) \<and> py_truthy (row_strike kv)
            \<and> py_float env (row_strike kv) = Inr (strike_price e)
            \<and> pydantic_str env (row_expiry kv) = Some (expiry_date e)"
    by blast
next
  assume "\<not> py_truthy (row_strike kv') \<or> (\<exists>err. py_float env (row_strike kv') = Inl err)"
  then show "parse_record env symb underlying now (JObj kv') = Inr ([], [])"
    by (rule parse_record_skips)
next
  assume a: "transform_to_documents env rows symb now = (call_docs, put_docs)
      \<and> d \<in> set call_docs \<union> set put_docs"
  then have t: "transform_to_documents env rows symb now = (call_docs, put_docs)"
    and m: "d \<in> set call_docs \<union> set put_docs"
    by simp_all
  show "\<exists>row c. row \<in> set rows \<and> map_of row ''STRIKE'' = Some c
      \<and> strike_of_cell env c = Some (doc_strike_price d)"
    by (rule transform_emits[OF t m])
qed

lemma str_of_int_minus_5: "str_of_int (- 5) = ''-5''"
  by (simp add: str_of_int_def str_of_nat.simps digit_char_def)

lemma negative_parse:
  "parse_option_chain host negative_payload ''NIFTY'' 7 =
     Inr ([\<lparr> symbol = ''NIFTY'', opt_type = CALL, strike_price = - 5,
              expiry_date = '''', identifier' = ''NIFTY_CE_-5_'',
              fetched_at = 7, open_interest = None, change_in_oi = None, pchange_in_oi = None,
              last_price = Some 125.75, change = None, pchange = None,
              total_traded_volume = None, implied_volatility = None, bid_qty = None,
              bid_price = None, ask_price = None, ask_qty = None, underlying_value = None \<rparr>],
          [])"
  by (simp add: negative_payload_def parse_option_chain_def parse_record_def side_entry_def
      create_option_entry_def row_strike_def row_expiry_def str_of_int_minus_5
      NSE_FIELD_MAPPING_def validated_fields_def field_value_def validate_prices_def
      validate_quantities_def validate_percentages_def small_int_converts Let_def)

text \<open>
  C7, as the specification has it, fails on a strike price below zero: the row has the
  strike price -5 and no expiry date, and the parser returns a call entry with that
  strike price and the empty string as its expiry date.
\<close>

theorem negative_strike_is_emitted:
  "parse_option_chain host negative_payload ''NIFTY'' 7 =
     Inr ([\<lparr> symbol = ''NIFTY'', opt_type = CALL, strike_price = - 5,
              expiry_date = '''', identifier' = ''NIFTY_CE_-5_'',
              fetched_at = 7, open_interest = None, change_in_oi = None, pchange_in_oi = None,
              last_price = Some 125.75, change = None, pchange = None,
              total_traded_volume = None, implied_volatility = None, bid_qty = None,
              bid_price = None, ask_price = None, ask_qty = None, underlying_value = None \<rparr>],
          [])"
  by (rule negative_parse)

lemma scenario_entries:
  "parse_option_chain env scenario_payload ''NIFTY'' now = Inr ([scenario_call now], [scenario_put now])"
  by (simp add: scenario_parse scenario_call_def scenario_put_def)

theorem emitted_strike_and_expiry_witness:
  "parse_option_chain host scenario_payload ''NIFTY'' 7 = Inr ([scenario_call 7], [scenario_put 7])
   \<and> scenario_put 7 \<in> set [scenario_call 7] \<union> set [scenario_put 7]
   \<and> (\<exists>kv. JObj kv \<in> set (payload_rows scenario_payload) \<and> py_truthy (row_strike kv)
           \<and> py_float host (row_strike kv) = Inr (strike_price (scenario_put 7))
           \<and> pydantic_str host (row_expiry kv) = Some (expiry_date (scenario_put 7)))
   \<and> py_float host (row_strike worded_strike_row) = Inl ValueError
   \<and> parse_record host ''NIFTY'' JNull 7 (JObj worded_strike_row) = Inr ([], [])
   \<and> transform_to_documents host [worded_row] ''NIFTY'' 7 = ([worded_document], [])
   \<and> worded_document \<in> set [worded_document] \<union> set []
   \<and> (\<exists>row c. row \<in> set [worded_row] \<and> map_of row ''STRIKE'' = Some c
           \<and> strike_of_cell host c = Some (doc_strike_price worded_document))"
proof -
  have p: "parse_option_chain host scenario_payload ''NIFTY'' 7 = Inr ([scenario_call 7], [scenario_put 7])"
    by (rule scenario_entries)
  have m: "scenario_put 7 \<in> set [scenario_call 7] \<union> set [scenario_put 7]" by simp
  have f: "py_float host (row_strike worded_strike_row) = Inl ValueError"
    by (simp add: worded_strike_row_def row_strike_def host_float_word)
  then have h: "\<not> py_truthy (row_strike worded_strike_row)
      \<or> (\<exists>err. py_float host (row_strike worded_strike_row) = Inl err)"
    by blast
  have t: "transform_to_documents host [worded_row] ''NIFTY'' 7 = ([worded_document], [])"
    by (rule worded_row_transform)
  have n: "worded_document \<in> set [worded_document] \<union> set []" by simp
  note T = emitted_strike_and_expiry[where env=host and raw_data=scenario_payload
      and symb="''NIFTY''" and now=7 and calls="[scenario_call 7]" and puts="[scenario_put 7]"
      and e="scenario_put 7" and kv'=worded_strike_row and underlying=JNull
      and rows="[worded_row]" and call_docs="[worded_document]" and put_docs="[]"
      and d=worded_document]
  note c1 = T[THEN conjunct1, THEN mp, OF conjI[OF p m]]
  note c2 = T[THEN conjunct2, THEN conjunct1, THEN mp, OF h]
  note c3 = T[THEN conjunct2, THEN conjunct2, THEN mp, OF conjI[OF t n]]
  show ?thesis by (intro conjI) (rule p m c1 f c2 t n c3)+
qed

end
